theory Spec2Isabelle
  imports Complex_Main
begin

section \<open>Request values, errors and responses\<close>

text \<open>
  The repository is a Django REST Framework application.  A request body
  (\<^verbatim>\<open>request.data\<close>) is a JSON object: a partial map from member names to
  JSON values.  Numbers are the integers (a number with a fractional part is left
  out).  Response bodies that are not rendered from a model row are JSON values too.
\<close>

datatype json =
    JNull
  | JBool bool
  | JInt int
  | JStr string
  | JArray "json list"
  | JObject "(string \<times> json) list"

type_synonym body = "string \<rightharpoonup> json"

text \<open>
  Every exception the handlers can raise is a value.  A \<open>ValidationError\<close> carries its
  detail: for each key (a field name, or \<open>non_field_errors\<close>) the codes of the
  errors found.  The messages of the source are Russian text; a code stands for each.
\<close>

datatype error =
    ValidationError "(string \<times> string list) list"
  | Http404
  | DoesNotExist
  | ProtectedError
  | IntegrityError
  | MultipleObjectsReturned

text \<open>
  The framework's exception handler turns \<open>ValidationError\<close> into status 400 and
  \<open>Http404\<close> into 404; a database exception is not handled and leaves Django as a
  500 response.
\<close>

fun exception_status :: "error \<Rightarrow> nat" where
  "exception_status (ValidationError _) = 400"
| "exception_status Http404 = 404"
| "exception_status DoesNotExist = 500"
| "exception_status ProtectedError = 500"
| "exception_status IntegrityError = 500"
| "exception_status MultipleObjectsReturned = 500"

record 'a response =
  resp_status :: nat
  resp_data :: 'a

section \<open>The schema (reviews/models.py)\<close>

text \<open>
  One record per model, one list of rows per table.  A foreign key holds the primary
  key of the row it points to; \<^verbatim>\<open>Title.genre\<close>, a many-to-many field, is the
  list of the genres' keys (the rows of the through table).
\<close>

record category =
  category_id :: nat
  category_name :: string
  category_slug :: string

record genre =
  genre_id :: nat
  genre_slug :: string
  genre_name :: string

record title =
  title_id :: nat
  title_category :: "nat option"
  title_description :: string
  title_genre :: "nat list"
  title_name :: string
  title_year :: int

record review =
  review_id :: nat
  review_title :: nat
  review_score :: int
  review_text :: string
  review_author :: nat
  review_pub_date :: nat

text \<open>
  \<^verbatim>\<open>users.models.User\<close> is imported by the sources but its module is not among
  them; the fields are the ones the serializers and views read.
\<close>

record user =
  user_id :: nat
  username :: string
  email :: string
  role :: string
  first_name :: string
  last_name :: string
  bio :: string
  confirmation_code :: string

text \<open>A message handed to \<^verbatim>\<open>send_mail\<close>: the recipient and the code in its text.\<close>

record mail =
  mail_to :: "json option"
  mail_username :: string
  mail_code :: string

record db =
  users :: "user list"
  categories :: "category list"
  genres :: "genre list"
  titles :: "title list"
  reviews :: "review list"
  outbox :: "mail list"

text \<open>
  \<^verbatim>\<open>QuerySet.get\<close> and \<^verbatim>\<open>get_object_or_404\<close>, applied to the rows a filter
  selected: no row is \<open>DoesNotExist\<close> (turned into \<open>Http404\<close> by the shortcut),
  several rows are \<open>MultipleObjectsReturned\<close>.
\<close>

definition queryset_get :: "'a list \<Rightarrow> error + 'a" where
  "queryset_get rows =
     (case rows of
        [] \<Rightarrow> Inl DoesNotExist
      | [x] \<Rightarrow> Inr x
      | _ \<Rightarrow> Inl MultipleObjectsReturned)"

definition get_object_or_404 :: "'a list \<Rightarrow> error + 'a" where
  "get_object_or_404 rows =
     (case queryset_get rows of
        Inl DoesNotExist \<Rightarrow> Inl Http404
      | r \<Rightarrow> r)"

text \<open>A new primary key: one more than the largest key in use.\<close>

definition next_id :: "nat list \<Rightarrow> nat" where
  "next_id ks = Suc (fold max ks 0)"

section \<open>Serializers: Category, Genre, Title\<close>

text \<open>
  \<^verbatim>\<open>CategorySerializer\<close> and \<^verbatim>\<open>GenreSerializer\<close> have the fields
  \<open>("name", "slug")\<close>; their \<^verbatim>\<open>data\<close> is the ordered dictionary of the two
  attributes read from the instance.
\<close>

type_synonym name_slug = "(string \<times> string) list"

definition serialize_name_slug :: "string \<Rightarrow> string \<Rightarrow> name_slug" where
  "serialize_name_slug nm sl = [(''name'', nm), (''slug'', sl)]"

definition CategorySerializer :: "category \<Rightarrow> name_slug" where
  "CategorySerializer c = serialize_name_slug (category_name c) (category_slug c)"

definition GenreSerializer :: "genre \<Rightarrow> name_slug" where
  "GenreSerializer g = serialize_name_slug (genre_name g) (genre_slug g)"

text \<open>
  \<^verbatim>\<open>Avg("reviews__score")\<close>: the mean of the joined scores, \<open>NULL\<close> when the join
  is empty.  The database returns it as a float; here it is the exact rational, which
  agrees with the float wherever the quotient is representable.
\<close>

definition Avg :: "int list \<Rightarrow> rat option" where
  "Avg xs =
     (if xs = [] then None
      else Some (of_int (sum_list xs) / of_int (int (length xs))))"

definition review_scores :: "db \<Rightarrow> nat \<Rightarrow> int list" where
  "review_scores d pk = map review_score (filter (\<lambda>r. review_title r = pk) (reviews d))"

text \<open>
  \<^verbatim>\<open>IntegerField.to_representation\<close> is Python's \<^verbatim>\<open>int(value)\<close>, which drops
  the fractional part (rounds toward zero).
\<close>

definition IntegerField_to_representation :: "rat \<Rightarrow> int" where
  "IntegerField_to_representation v = (if v < 0 then - \<lfloor>- v\<rfloor> else \<lfloor>v\<rfloor>)"

text \<open>
  \<^verbatim>\<open>TitleOnlyReadSerializer\<close>: \<open>rating\<close> is declared
  \<^verbatim>\<open>serializers.IntegerField(read_only=True)\<close> and reads the annotation of the
  queryset; a \<open>None\<close> attribute is rendered as \<open>null\<close> without calling the field.
\<close>

record title_read =
  tr_id :: nat
  tr_name :: string
  tr_year :: int
  tr_rating :: "int option"
  tr_description :: string
  tr_genre :: "name_slug list"
  tr_category :: "name_slug option"

definition TitleOnlyReadSerializer :: "db \<Rightarrow> title \<Rightarrow> title_read" where
  "TitleOnlyReadSerializer d t =
     \<lparr> tr_id = title_id t,
       tr_name = title_name t,
       tr_year = title_year t,
       tr_rating = map_option IntegerField_to_representation (Avg (review_scores d (title_id t))),
       tr_description = title_description t,
       tr_genre = map GenreSerializer (filter (\<lambda>g. genre_id g \<in> set (title_genre t)) (genres d)),
       tr_category =
         (case title_category t of
            None \<Rightarrow> None
          | Some k \<Rightarrow> map_option CategorySerializer (find (\<lambda>c. category_id c = k) (categories d))) \<rparr>"

text \<open>
  \<^verbatim>\<open>TitleSerializer.validate_year\<close> (api/serializers.py).  \<open>now_year\<close> is
  \<^verbatim>\<open>dt.datetime.now().year\<close>, which Python keeps between \<open>MINYEAR = 1\<close> and
  \<open>MAXYEAR = 9999\<close>.
\<close>

definition validate_year :: "int \<Rightarrow> int \<Rightarrow> error + int" where
  "validate_year now_year data =
     (if data \<ge> now_year \<and> data < 0
      then Inl (ValidationError [(''year'', [''invalid''])])
      else Inr data)"

section \<open>Views: Category, Genre, Title (api/views.py)\<close>

text \<open>
  A handler takes the database and returns the response, or the exception it raised,
  together with the database it leaves behind.  The permission classes
  (\<^verbatim>\<open>api.permissions\<close>, not among the sources) run before a handler; the
  handlers below are the method bodies, reached by a request that was let through.

  The body of \<^verbatim>\<open>CategoryViewSet.delete_category\<close>, for the slug the router
  hands to the method: \<^verbatim>\<open>get_object\<close> looks the slug up, the
  serializer is built, \<^verbatim>\<open>category.delete()\<close> runs, and the response carries the
  serializer's data with status 204.  \<^verbatim>\<open>Title.category\<close> is declared
  \<^verbatim>\<open>on_delete=models.PROTECT\<close>: the delete raises \<open>ProtectedError\<close>, before any
  row is touched, when a title points to the category.
\<close>

definition delete_category :: "db \<Rightarrow> string \<Rightarrow> (error + name_slug response) \<times> db" where
  "delete_category d slug =
     (case get_object_or_404 (filter (\<lambda>c. category_slug c = slug) (categories d)) of
        Inl e \<Rightarrow> (Inl e, d)
      | Inr c \<Rightarrow>
          if list_ex (\<lambda>t. title_category t = Some (category_id c)) (titles d)
          then (Inl ProtectedError, d)
          else (Inr \<lparr> resp_status = 204, resp_data = CategorySerializer c \<rparr>,
                d \<lparr> categories := filter (\<lambda>x. category_id x \<noteq> category_id c) (categories d) \<rparr>))"

text \<open>
  The method \<^verbatim>\<open>GenreViewSet.delete_genre\<close> has the same body over the genres; the object is
  serialized with \<^verbatim>\<open>CategorySerializer\<close>, which reads \<open>name\<close> and \<open>slug\<close> from
  whatever instance it is given.  Deleting a genre deletes its rows of the
  many-to-many table.
\<close>

definition delete_genre :: "db \<Rightarrow> string \<Rightarrow> (error + name_slug response) \<times> db" where
  "delete_genre d slug =
     (case get_object_or_404 (filter (\<lambda>g. genre_slug g = slug) (genres d)) of
        Inl e \<Rightarrow> (Inl e, d)
      | Inr g \<Rightarrow>
          (Inr \<lparr> resp_status = 204,
                 resp_data = serialize_name_slug (genre_name g) (genre_slug g) \<rparr>,
           d \<lparr> genres := filter (\<lambda>x. genre_id x \<noteq> genre_id g) (genres d),
               titles := map (\<lambda>t. t \<lparr> title_genre := removeAll (genre_id g) (title_genre t) \<rparr>)
                             (titles d) \<rparr>))"

text \<open>
  Both handlers are actions declared with
  \<^verbatim>\<open>@action(detail=False, methods=["delete"], url_path=r"(?P<slug>\w+)")\<close>: a
  \<open>DELETE\<close> request reaches the method only when the slug segment of the URL
  matches \<^verbatim>\<open>\w+\<close>, one or more word characters.  A word character is a letter, a
  digit or the underscore (for the code points up to 255: the ASCII ones and the
  letters and digits of Latin-1).  The hyphen, which \<^verbatim>\<open>validate_slug\<close> admits in
  a slug, is none.
\<close>

definition word_char :: "char \<Rightarrow> bool" where
  "word_char c =
     (let n = (of_char c :: nat) in
      (48 \<le> n \<and> n \<le> 57) \<or> (65 \<le> n \<and> n \<le> 90) \<or> n = 95 \<or> (97 \<le> n \<and> n \<le> 122)
      \<or> n = 170 \<or> n = 178 \<or> n = 179 \<or> n = 181 \<or> n = 185 \<or> n = 186
      \<or> (188 \<le> n \<and> n \<le> 190) \<or> (192 \<le> n \<and> n \<le> 214)
      \<or> (216 \<le> n \<and> n \<le> 246) \<or> (248 \<le> n \<and> n \<le> 255))"

definition slug_url_path :: "string \<Rightarrow> bool" where
  "slug_url_path s = (s \<noteq> [] \<and> list_all word_char s)"

text \<open>
  The delete-by-slug actions as the router serves them: \<open>None\<close> when the URL does
  not match the action's path, so that the request never reaches the method (what
  answers it then lies with the other routes of the view sets, whose base class
  \<^verbatim>\<open>api.mixins.CreateUpdateDeleteViewSet\<close> is not among the sources).
\<close>

definition CategoryViewSet_delete_category ::
  "db \<Rightarrow> string \<Rightarrow> ((error + name_slug response) \<times> db) option" where
  "CategoryViewSet_delete_category d slug =
     (if slug_url_path slug then Some (delete_category d slug) else None)"

definition GenreViewSet_delete_genre ::
  "db \<Rightarrow> string \<Rightarrow> ((error + name_slug response) \<times> db) option" where
  "GenreViewSet_delete_genre d slug =
     (if slug_url_path slug then Some (delete_genre d slug) else None)"

text \<open>
  \<^verbatim>\<open>TitleViewSet\<close>, \<open>GET\<close> on one title: the queryset is annotated with
  \<^verbatim>\<open>rating=Avg("reviews__score")\<close> and the serializer class for \<open>GET\<close> is
  \<^verbatim>\<open>TitleOnlyReadSerializer\<close>.
\<close>

definition TitleViewSet_retrieve :: "db \<Rightarrow> nat \<Rightarrow> error + title_read response" where
  "TitleViewSet_retrieve d pk =
     (case get_object_or_404 (filter (\<lambda>t. title_id t = pk) (titles d)) of
        Inl e \<Rightarrow> Inl e
      | Inr t \<Rightarrow> Inr \<lparr> resp_status = 200, resp_data = TitleOnlyReadSerializer d t \<rparr>)"

section \<open>Python and framework primitives\<close>

text \<open>
  What the handlers leave to Python, Django and the framework is a parameter:
  \<^item> \<open>py_str\<close>: \<^verbatim>\<open>str(value)\<close> of a request value that is not a string;
  \<^item> \<open>py_int\<close>: \<^verbatim>\<open>int(s)\<close> of a string, \<open>None\<close> when it raises;
  \<^item> \<open>drf_int\<close>: the parse of \<^verbatim>\<open>IntegerField.to_internal_value\<close> on a string,
    \<open>None\<close> when it fails;
  \<^item> \<open>for_user\<close>: the text of \<^verbatim>\<open>AccessToken.for_user(user)\<close>;
  \<^item> \<open>username_validator\<close>: the effect of the entry \<^verbatim>\<open>UnicodeUsernameValidator\<close>
    in the validators of \<^verbatim>\<open>TokenSerializer.username\<close>, true when it raises nothing.
\<close>

record platform =
  py_str :: "json \<Rightarrow> string"
  py_int :: "string \<Rightarrow> int option"
  drf_int :: "string \<Rightarrow> int option"
  for_user :: "user \<Rightarrow> string"
  username_validator :: "string \<Rightarrow> bool"

text \<open>
  \<^verbatim>\<open>str.strip()\<close>: a character of a string is a code point up to 255, and the
  whitespace among these is removed at both ends.
\<close>

definition isspace :: "char \<Rightarrow> bool" where
  "isspace c =
     (c \<in> set [CHR 0x09, CHR 0x0A, CHR 0x0B, CHR 0x0C, CHR 0x0D,
                CHR 0x1C, CHR 0x1D, CHR 0x1E, CHR 0x1F, CHR 0x20,
                CHR 0x85, CHR 0xA0])"

definition strip :: "string \<Rightarrow> string" where
  "strip s = rev (dropWhile isspace (rev (dropWhile isspace s)))"

text \<open>
  The outcome of one serializer field: the field is skipped (absent and not
  required, or absent on a partial update), it fails with error codes, or it yields
  the validated value.
\<close>

datatype 'a field_result = Skipped | Failed "string list" | Valid 'a

definition field_errors :: "string \<Rightarrow> 'a field_result \<Rightarrow> (string \<times> string list) list" where
  "field_errors f r = (case r of Failed es \<Rightarrow> [(f, es)] | _ \<Rightarrow> [])"

text \<open>
  A required \<^verbatim>\<open>CharField\<close> (\<^verbatim>\<open>allow_blank=False\<close>, \<^verbatim>\<open>trim_whitespace=True\<close>):
  an absent member is \<open>required\<close> (skipped on a partial update), \<open>null\<close> is refused,
  only strings and numbers are taken, a blank value is refused, the value is
  stripped, and then the validators run: the field's own, the maximal length and
  the ban on the null character.
\<close>

definition CharField ::
  "platform \<Rightarrow> bool \<Rightarrow> nat option \<Rightarrow> (string \<Rightarrow> string list) \<Rightarrow> json option
     \<Rightarrow> string field_result" where
  "CharField pf partial max_length validators raw =
     (case raw of
        None \<Rightarrow> if partial then Skipped else Failed [''required'']
      | Some JNull \<Rightarrow> Failed [''null'']
      | Some (JBool b) \<Rightarrow> Failed [''invalid'']
      | Some (JArray xs) \<Rightarrow> Failed [''invalid'']
      | Some (JObject kvs) \<Rightarrow> Failed [''invalid'']
      | Some j \<Rightarrow>
          (let s = (case j of JStr s \<Rightarrow> s | _ \<Rightarrow> py_str pf j); v = strip s in
           if v = [] then Failed [''blank'']
           else
             (let errs =
                    validators v
                    @ (case max_length of
                         None \<Rightarrow> []
                       | Some n \<Rightarrow> if length v > n then [''max_length''] else [])
                    @ (if CHR 0x00 \<in> set v then [''null_characters_not_allowed''] else [])
              in if errs = [] then Valid v else Failed errs)))"

text \<open>
  A required \<^verbatim>\<open>IntegerField\<close>: a JSON integer is taken as it is, a string is parsed,
  every other value is \<open>invalid\<close> (its \<^verbatim>\<open>str()\<close> is no numeral).
\<close>

definition IntegerField :: "platform \<Rightarrow> bool \<Rightarrow> json option \<Rightarrow> int field_result" where
  "IntegerField pf partial raw =
     (case raw of
        None \<Rightarrow> if partial then Skipped else Failed [''required'']
      | Some JNull \<Rightarrow> Failed [''null'']
      | Some (JInt n) \<Rightarrow> Valid n
      | Some (JStr s) \<Rightarrow>
          (if length s > 1000 then Failed [''max_string_length'']
           else case drf_int pf s of None \<Rightarrow> Failed [''invalid''] | Some n \<Rightarrow> Valid n)
      | Some _ \<Rightarrow> Failed [''invalid''])"

text \<open>
  The value an exact lookup on a text column compares with: \<open>None\<close> (absent member,
  or \<open>null\<close>) selects no row, a string is compared as it is, any other value by
  its \<^verbatim>\<open>str()\<close>.
\<close>

definition lookup_matches :: "platform \<Rightarrow> json option \<Rightarrow> string \<Rightarrow> bool" where
  "lookup_matches pf raw s =
     (case raw of
        None \<Rightarrow> False
      | Some JNull \<Rightarrow> False
      | Some (JStr v) \<Rightarrow> v = s
      | Some j \<Rightarrow> py_str pf j = s)"

section \<open>Token exchange (api/serializers.py, api/views.py)\<close>

text \<open>
  \<^verbatim>\<open>TokenSerializer\<close>: \<open>username\<close> is a required \<^verbatim>\<open>CharField\<close> of at most 150
  characters with the username validator, \<open>confirmation_code\<close> a required
  \<^verbatim>\<open>CharField\<close>.  The errors of both fields are collected.
\<close>

definition TokenSerializer :: "platform \<Rightarrow> body \<Rightarrow> error + (string \<times> string)" where
  "TokenSerializer pf data =
     (let u = CharField pf False (Some 150)
                (\<lambda>v. if username_validator pf v then [] else [''invalid''])
                (data ''username'');
          c = CharField pf False None (\<lambda>v. []) (data ''confirmation_code'')
      in case (u, c) of
           (Valid n, Valid k) \<Rightarrow> Inr (n, k)
         | _ \<Rightarrow> Inl (ValidationError
                       (field_errors ''username'' u @ field_errors ''confirmation_code'' c)))"

text \<open>
  Modelled from the spec: \<^verbatim>\<open>check_confirmation_code\<close> is imported from
  \<^verbatim>\<open>api/utils.py\<close>, which is not among the sources.  The specification says that
  the token request exchanges the username and the confirmation code issued at
  sign-up for a token and "fails with a validation error if the code does not
  match"; the code issued at sign-up is the one the view reads from
  \<^verbatim>\<open>user.confirmation_code\<close>.
\<close>

definition check_confirmation_code :: "user \<Rightarrow> string \<Rightarrow> bool" where
  "check_confirmation_code u code = (confirmation_code u = code)"

text \<open>
  \<^verbatim>\<open>Token.post\<close>: validate (raising), look the user up (404 when absent), check the
  code, and answer 200 with the token or 400 with an error under
  \<open>confirmation_code\<close> (the message, Russian in the source, is given in
  English).  The database is only read.
\<close>

definition Token_post :: "platform \<Rightarrow> db \<Rightarrow> body \<Rightarrow> error + json response" where
  "Token_post pf d data =
     (case TokenSerializer pf data of
        Inl e \<Rightarrow> Inl e
      | Inr (uname, code) \<Rightarrow>
          (case get_object_or_404 (filter (\<lambda>u. username u = uname) (users d)) of
             Inl e \<Rightarrow> Inl e
           | Inr u \<Rightarrow>
               if check_confirmation_code u code
               then Inr \<lparr> resp_status = 200,
                          resp_data = JObject [(''token'', JStr (for_user pf u))] \<rparr>
               else Inr \<lparr> resp_status = 400,
                          resp_data = JObject [(''confirmation_code'',
                                                JArray [JStr ''code is not valid''])] \<rparr>))"

text \<open>
  What a client receives: the response, or the response the exception handler
  builds; the token is the member \<open>token\<close> of a body that has one.
\<close>

definition response_status :: "error + 'a response \<Rightarrow> nat" where
  "response_status r = (case r of Inl e \<Rightarrow> exception_status e | Inr x \<Rightarrow> resp_status x)"

definition issued_token :: "error + json response \<Rightarrow> json option" where
  "issued_token r =
     (case r of
        Inr x \<Rightarrow> (case resp_data x of JObject kvs \<Rightarrow> map_of kvs ''token'' | _ \<Rightarrow> None)
      | Inl e \<Rightarrow> None)"

section \<open>User serializers (api/serializers.py)\<close>

text \<open>
  \<^verbatim>\<open>UserSerializer\<close>, \<^verbatim>\<open>UserMeSerializer\<close> and \<^verbatim>\<open>SignUpSerializer\<close> are model
  serializers of \<^verbatim>\<open>users.models.User\<close>: their fields are built from the model,
  whose module is not among the sources.  What the model declares is a parameter:
  \<^item> \<open>is_admin\<close>: the property \<^verbatim>\<open>User.is_admin\<close>;
  \<^item> \<open>user_field f j\<close>: the internal value the serializer field built for the model
    field \<open>f\<close> makes of the request value \<open>j\<close>, with the validators declared on the
    model field (uniqueness apart) applied, \<open>None\<close> when the value is refused;
  \<^item> \<open>user_required f\<close>: whether that field is required on a full write;
  \<^item> \<open>email_unique\<close>: whether \<^verbatim>\<open>User.email\<close> is declared unique;
  \<^item> \<open>defaults\<close>: the field values of a new row before any is assigned.
\<close>

record user_model =
  is_admin :: "user \<Rightarrow> bool"
  user_field :: "string \<Rightarrow> json \<Rightarrow> string option"
  user_required :: "string \<Rightarrow> bool"
  email_unique :: bool
  defaults :: user

text \<open>
  Modelled from the spec: the declaration of \<^verbatim>\<open>User.username\<close> is in the missing
  \<^verbatim>\<open>users/models.py\<close>; the specification speaks of "the username uniqueness
  rule", so the column is unique and its serializer field carries a
  \<^verbatim>\<open>UniqueValidator\<close>.  The validator refuses a value that another row has; on an
  update the instance itself is left out of the comparison.
\<close>

definition UniqueValidator ::
  "user list \<Rightarrow> user option \<Rightarrow> (user \<Rightarrow> string) \<Rightarrow> string \<Rightarrow> bool" where
  "UniqueValidator rows instance column v =
     (\<not> list_ex (\<lambda>x. column x = v
                      \<and> (case instance of None \<Rightarrow> True | Some i \<Rightarrow> user_id x \<noteq> user_id i))
                 rows)"

definition unique_column :: "user_model \<Rightarrow> string \<Rightarrow> (user \<Rightarrow> string) option" where
  "unique_column mdl f =
     (if f = ''username'' then Some username
      else if f = ''email'' \<and> email_unique mdl then Some email
      else None)"

text \<open>
  \<^verbatim>\<open>validate_username\<close> of \<^verbatim>\<open>UserSerializer\<close> (inherited by
  \<^verbatim>\<open>UserMeSerializer\<close>) and of \<^verbatim>\<open>SignUpSerializer\<close>: the value \<open>me\<close> is refused.
\<close>

definition validate_username :: "string \<Rightarrow> string field_result" where
  "validate_username v = (if v = ''me'' then Failed [''invalid''] else Valid v)"

text \<open>
  One field of a user serializer: the field's own validation, the uniqueness
  validator where the column is unique, and then the serializer's
  \<^verbatim>\<open>validate_<field>\<close> method, which only \<open>username\<close> has.
\<close>

definition user_field_run ::
  "user_model \<Rightarrow> user list \<Rightarrow> user option \<Rightarrow> bool \<Rightarrow> string \<Rightarrow> json option
     \<Rightarrow> string field_result" where
  "user_field_run mdl rows instance partial f raw =
     (case raw of
        None \<Rightarrow> if partial then Skipped
                else if user_required mdl f then Failed [''required''] else Skipped
      | Some j \<Rightarrow>
          (case user_field mdl f j of
             None \<Rightarrow> Failed [''invalid'']
           | Some v \<Rightarrow>
               (case unique_column mdl f of
                  None \<Rightarrow> if f = ''username'' then validate_username v else Valid v
                | Some column \<Rightarrow>
                    if UniqueValidator rows instance column v
                    then (if f = ''username'' then validate_username v else Valid v)
                    else Failed [''unique''])))"

text \<open>
  \<^verbatim>\<open>is_valid\<close> of a user serializer with the writable fields \<open>fs\<close>: every field is
  run, the errors are collected, and without errors the validated data is the
  dictionary of the values of the fields that were not skipped.
\<close>

definition valid_items :: "(string \<times> string field_result) list \<Rightarrow> (string \<times> string) list" where
  "valid_items rs =
     concat (map (\<lambda>(f, r). case r of Valid v \<Rightarrow> [(f, v)] | _ \<Rightarrow> []) rs)"

definition user_serializer_is_valid ::
  "user_model \<Rightarrow> user list \<Rightarrow> user option \<Rightarrow> bool \<Rightarrow> string list \<Rightarrow> body
     \<Rightarrow> (string \<times> string list) list + (string \<times> string) list" where
  "user_serializer_is_valid mdl rows instance partial fs data =
     (let rs = map (\<lambda>f. (f, user_field_run mdl rows instance partial f (data f))) fs;
          errs = concat (map (\<lambda>(f, r). field_errors f r) rs)
      in if errs = [] then Inr (valid_items rs) else Inl errs)"

definition UserSerializer_fields :: "string list" where
  "UserSerializer_fields =
     [''username'', ''email'', ''role'', ''first_name'', ''last_name'', ''bio'']"

text \<open>\<^verbatim>\<open>UserMeSerializer\<close> has the same fields and \<^verbatim>\<open>read_only_fields = ("role",)\<close>.\<close>

definition UserMeSerializer_read_only_fields :: "string list" where
  "UserMeSerializer_read_only_fields = [''role'']"

definition SignUpSerializer_fields :: "string list" where
  "SignUpSerializer_fields = [''email'', ''username'']"

text \<open>
  \<^verbatim>\<open>setattr(instance, attr, value)\<close> on a user: a model field is assigned; any other
  name becomes an attribute of the Python object and reaches no column.
\<close>

definition setattr_user :: "user \<Rightarrow> string \<times> string \<Rightarrow> user" where
  "setattr_user u kv =
     (let f = fst kv; v = snd kv in
      if f = ''username'' then u \<lparr> username := v \<rparr>
      else if f = ''email'' then u \<lparr> email := v \<rparr>
      else if f = ''role'' then u \<lparr> role := v \<rparr>
      else if f = ''first_name'' then u \<lparr> first_name := v \<rparr>
      else if f = ''last_name'' then u \<lparr> last_name := v \<rparr>
      else if f = ''bio'' then u \<lparr> bio := v \<rparr>
      else u)"

text \<open>
  \<^verbatim>\<open>{**validated_data, **kwargs}\<close> for one keyword: the value of a key already
  present is replaced, a new key is added at the end.
\<close>

definition dict_set :: "string \<Rightarrow> 'v \<Rightarrow> (string \<times> 'v) list \<Rightarrow> (string \<times> 'v) list" where
  "dict_set k v kvs =
     (if list_ex (\<lambda>p. fst p = k) kvs
      then map (\<lambda>p. if fst p = k then (k, v) else p) kvs
      else kvs @ [(k, v)])"

text \<open>
  \<^verbatim>\<open>ModelSerializer.update\<close>: every item of the validated data is assigned and the
  instance is saved, which rewrites the row with the instance's primary key.
  \<^verbatim>\<open>ModelSerializer.create\<close>: a row with a new key is inserted.
\<close>

definition save_user :: "db \<Rightarrow> user \<Rightarrow> db" where
  "save_user d inst =
     d \<lparr> users := map (\<lambda>x. if user_id x = user_id inst then inst else x) (users d) \<rparr>"

definition create_user :: "user_model \<Rightarrow> db \<Rightarrow> (string \<times> string) list \<Rightarrow> user" where
  "create_user mdl d validated =
     fold (\<lambda>kv u. setattr_user u kv) validated
          ((defaults mdl) \<lparr> user_id := next_id (map user_id (users d)) \<rparr>)"

definition errors_json :: "(string \<times> string list) list \<Rightarrow> json" where
  "errors_json errs = JObject (map (\<lambda>(f, es). (f, JArray (map JStr es))) errs)"

definition user_data :: "string list \<Rightarrow> user \<Rightarrow> json" where
  "user_data fs u =
     JObject (map (\<lambda>f. (f, JStr (if f = ''username'' then username u
                                   else if f = ''email'' then email u
                                   else if f = ''role'' then role u
                                   else if f = ''first_name'' then first_name u
                                   else if f = ''last_name'' then last_name u
                                   else bio u))) fs)"

section \<open>Views: users and sign-up (api/views.py)\<close>

text \<open>
  \<^verbatim>\<open>UserViewSet.me\<close>, reached by an authenticated caller (\<^verbatim>\<open>request.user\<close>, a
  row of the users).  On \<open>PATCH\<close> an admin gets \<^verbatim>\<open>UserMeSerializer\<close>, anyone else
  \<^verbatim>\<open>UserSerializer\<close>, both partial; the validation raises; then
  \<^verbatim>\<open>serializer.save(role=request.user.role, partial=True)\<close> merges the two
  keywords over the validated data and updates the caller.  \<open>partial\<close> is no model
  field: its assignment changes no column and is left out.  Any other method
  answers with the caller's data.
\<close>

definition UserViewSet_me ::
  "user_model \<Rightarrow> db \<Rightarrow> string \<Rightarrow> user \<Rightarrow> body \<Rightarrow> (error + json response) \<times> db" where
  "UserViewSet_me mdl d method caller data =
     (if method = ''PATCH'' then
        (let writable =
               (if is_admin mdl caller
                then filter (\<lambda>f. f \<notin> set UserMeSerializer_read_only_fields) UserSerializer_fields
                else UserSerializer_fields)
         in case user_serializer_is_valid mdl (users d) (Some caller) True writable data of
              Inl errs \<Rightarrow> (Inl (ValidationError errs), d)
            | Inr validated \<Rightarrow>
                (let inst = fold (\<lambda>kv u. setattr_user u kv)
                                 (dict_set ''role'' (role caller) validated) caller
                 in (Inr \<lparr> resp_status = 200, resp_data = user_data UserSerializer_fields inst \<rparr>,
                     save_user d inst)))
      else (Inr \<lparr> resp_status = 200, resp_data = user_data UserSerializer_fields caller \<rparr>, d))"

text \<open>
  \<^verbatim>\<open>SignUpViewSet.create\<close>.  When a user with the username and the email of the
  body exists, the serializer is bound to the user with that username (an update);
  otherwise it is unbound (a create).  An invalid body is answered with 400 and the
  errors.  A valid one is saved, the user is read back by the username of the body,
  the user's confirmation code is mailed to the email of the body, and the answer
  is 200 with the serializer's data.
\<close>

definition SignUpViewSet_create ::
  "platform \<Rightarrow> user_model \<Rightarrow> db \<Rightarrow> body \<Rightarrow> (error + json response) \<times> db" where
  "SignUpViewSet_create pf mdl d data =
     (let by_name = (\<lambda>rows. filter (\<lambda>u. lookup_matches pf (data ''username'') (username u)) rows);
          known = filter (\<lambda>u. lookup_matches pf (data ''email'') (email u)) (by_name (users d))
      in case (if known \<noteq> [] then map_sum id Some (queryset_get (by_name (users d)))
               else Inr None) of
           Inl e \<Rightarrow> (Inl e, d)
         | Inr instance \<Rightarrow>
             (case user_serializer_is_valid mdl (users d) instance False
                     SignUpSerializer_fields data of
                Inl errs \<Rightarrow> (Inr \<lparr> resp_status = 400, resp_data = errors_json errs \<rparr>, d)
              | Inr validated \<Rightarrow>
                  (let saved =
                         (case instance of
                            None \<Rightarrow> create_user mdl d validated
                          | Some u \<Rightarrow> fold (\<lambda>kv u. setattr_user u kv) validated u);
                       d1 =
                         (case instance of
                            None \<Rightarrow> d \<lparr> users := users d @ [saved] \<rparr>
                          | Some u \<Rightarrow> save_user d saved)
                   in case queryset_get (by_name (users d1)) of
                        Inl e \<Rightarrow> (Inl e, d1)
                      | Inr u \<Rightarrow>
                          (Inr \<lparr> resp_status = 200,
                                 resp_data = user_data SignUpSerializer_fields saved \<rparr>,
                           d1 \<lparr> outbox := outbox d1 @
                                  [\<lparr> mail_to = data ''email'', mail_username = username u,
                                     mail_code = confirmation_code u \<rparr>] \<rparr>))))"

section \<open>Review serializer (api/serializers.py)\<close>

text \<open>
  The writable fields of \<^verbatim>\<open>ReviewSerializer\<close> are \<open>text\<close> (built from the model's
  \<^verbatim>\<open>TextField\<close>: a required \<^verbatim>\<open>CharField\<close> without a length bound), \<open>title\<close>
  and \<open>score\<close>; \<open>id\<close>, \<open>pub_date\<close>, \<open>author\<close> and \<open>comments\<close> are read-only, so
  the body's members of these names are never read.  The validated data holds the
  fields that were not skipped.
\<close>

record review_data =
  rd_text :: "string option"
  rd_title :: "title option"
  rd_score :: "int option"

definition value_of :: "'a field_result \<Rightarrow> 'a option" where
  "value_of r = (case r of Valid v \<Rightarrow> Some v | _ \<Rightarrow> None)"

text \<open>
  \<open>title\<close> is a \<^verbatim>\<open>SlugRelatedField(slug_field="id", required=False)\<close> over all
  titles: an absent member is skipped, \<open>null\<close> and the empty string are refused,
  and any other value is looked up as a primary key (a value that is no integer is
  \<open>invalid\<close>, an unknown key \<open>does_not_exist\<close>).  Primary keys are unique, so the
  lookup finds at most one row.
\<close>

definition title_by_id :: "title list \<Rightarrow> int \<Rightarrow> title field_result" where
  "title_by_id rows n =
     (case filter (\<lambda>t. int (title_id t) = n) rows of
        [] \<Rightarrow> Failed [''does_not_exist'']
      | t # ts \<Rightarrow> Valid t)"

definition title_field :: "platform \<Rightarrow> title list \<Rightarrow> json option \<Rightarrow> title field_result" where
  "title_field pf rows raw =
     (case raw of
        None \<Rightarrow> Skipped
      | Some JNull \<Rightarrow> Failed [''null'']
      | Some (JStr s) \<Rightarrow>
          (if s = [] then Failed [''null'']
           else case py_int pf s of
                  None \<Rightarrow> Failed [''invalid'']
                | Some n \<Rightarrow> title_by_id rows n)
      | Some (JInt n) \<Rightarrow> title_by_id rows n
      | Some (JBool b) \<Rightarrow> title_by_id rows (if b then 1 else 0)
      | Some _ \<Rightarrow> Failed [''invalid''])"

text \<open>\<^verbatim>\<open>ReviewSerializer.validate_score\<close>: the score lies between 1 and 10.\<close>

definition validate_score :: "int \<Rightarrow> int field_result" where
  "validate_score score = (if \<not> (1 \<le> score \<and> score \<le> 10) then Failed [''invalid''] else Valid score)"

text \<open>
  \<^verbatim>\<open>ReviewSerializer.validate\<close>: for any method but \<open>POST\<close> the data is returned at
  once; on \<open>POST\<close> a review of the title of the URL by the requesting user must
  not exist yet.
\<close>

definition ReviewSerializer_validate ::
  "review list \<Rightarrow> string \<Rightarrow> user \<Rightarrow> nat \<Rightarrow> review_data \<Rightarrow> error + review_data" where
  "ReviewSerializer_validate rows method author tid data =
     (if method \<noteq> ''POST'' then Inr data
      else if list_ex (\<lambda>r. review_author r = user_id author \<and> review_title r = tid) rows
      then Inl (ValidationError [(''non_field_errors'', [''invalid''])])
      else Inr data)"

text \<open>
  \<^verbatim>\<open>is_valid\<close>: the fields run in the order of \<^verbatim>\<open>Meta.fields\<close> and their errors
  are collected; \<^verbatim>\<open>validate\<close> runs only when no field failed.
\<close>

definition ReviewSerializer_is_valid ::
  "platform \<Rightarrow> db \<Rightarrow> string \<Rightarrow> user \<Rightarrow> nat \<Rightarrow> bool \<Rightarrow> body \<Rightarrow> error + review_data" where
  "ReviewSerializer_is_valid pf d method author tid partial data =
     (let t = CharField pf partial None (\<lambda>v. []) (data ''text'');
          ti = title_field pf (titles d) (data ''title'');
          s = (case IntegerField pf partial (data ''score'') of
                 Valid n \<Rightarrow> validate_score n
               | r \<Rightarrow> r);
          errs = field_errors ''text'' t @ field_errors ''title'' ti @ field_errors ''score'' s
      in if errs \<noteq> [] then Inl (ValidationError errs)
         else ReviewSerializer_validate (reviews d) method author tid
                \<lparr> rd_text = value_of t, rd_title = value_of ti, rd_score = value_of s \<rparr>)"

section \<open>Views: reviews (api/views.py)\<close>

text \<open>
  The constraint \<open>unique_title_author\<close> of \<^verbatim>\<open>Review.Meta\<close>: the database refuses a
  row whose title and author another row has.
\<close>

definition unique_title_author :: "review list \<Rightarrow> review \<Rightarrow> bool" where
  "unique_title_author rows r =
     (\<not> list_ex (\<lambda>x. review_id x \<noteq> review_id r \<and> review_title x = review_title r
                      \<and> review_author x = review_author r) rows)"

text \<open>
  \<^verbatim>\<open>ReviewViewSet\<close>, \<open>POST\<close>, reached by an authenticated caller: the serializer
  validates (raising), then \<^verbatim>\<open>perform_create\<close> fetches the title of the URL (404
  when absent) and calls \<^verbatim>\<open>serializer.save(author=self.request.user, title=title)\<close>;
  the two keywords override what the validated data holds.  \<open>now\<close> is the clock
  reading that \<^verbatim>\<open>auto_now_add\<close> stores.  The response body is the serializer's
  rendering of the stored row, given here as the row.
\<close>

definition ReviewViewSet_create ::
  "platform \<Rightarrow> db \<Rightarrow> user \<Rightarrow> nat \<Rightarrow> nat \<Rightarrow> body \<Rightarrow> (error + review response) \<times> db" where
  "ReviewViewSet_create pf d caller tid now data =
     (case ReviewSerializer_is_valid pf d ''POST'' caller tid False data of
        Inl e \<Rightarrow> (Inl e, d)
      | Inr validated \<Rightarrow>
          (case get_object_or_404 (filter (\<lambda>t. title_id t = tid) (titles d)) of
             Inl e \<Rightarrow> (Inl e, d)
           | Inr t \<Rightarrow>
               (case (rd_text validated, rd_score validated) of
                  (Some words, Some sc) \<Rightarrow>
                    (let r = \<lparr> review_id = next_id (map review_id (reviews d)),
                               review_title = title_id t,
                               review_score = sc,
                               review_text = words,
                               review_author = user_id caller,
                               review_pub_date = now \<rparr>
                     in if unique_title_author (reviews d) r
                        then (Inr \<lparr> resp_status = 201, resp_data = r \<rparr>,
                              d \<lparr> reviews := reviews d @ [r] \<rparr>)
                        else (Inl IntegrityError, d))
                | _ \<Rightarrow> (Inl IntegrityError, d))))"

text \<open>
  \<^verbatim>\<open>ReviewViewSet\<close>, \<open>PUT\<close> and \<open>PATCH\<close>, reached by a caller the permission
  classes let through: the queryset is the reviews of the title of the URL (404
  when the title is absent), the review is looked up in it (404), the serializer
  is bound to it (partial on \<open>PATCH\<close>) and validates (raising), and the update
  assigns the validated fields and saves.
\<close>

definition ReviewViewSet_update ::
  "platform \<Rightarrow> db \<Rightarrow> string \<Rightarrow> user \<Rightarrow> nat \<Rightarrow> nat \<Rightarrow> body \<Rightarrow> (error + review response) \<times> db" where
  "ReviewViewSet_update pf d method caller tid rid data =
     (case get_object_or_404 (filter (\<lambda>t. title_id t = tid) (titles d)) of
        Inl e \<Rightarrow> (Inl e, d)
      | Inr t \<Rightarrow>
          (case get_object_or_404
                  (filter (\<lambda>r. review_id r = rid)
                     (filter (\<lambda>r. review_title r = title_id t) (reviews d))) of
             Inl e \<Rightarrow> (Inl e, d)
           | Inr inst \<Rightarrow>
               (case ReviewSerializer_is_valid pf d method caller tid (method = ''PATCH'') data of
                  Inl e \<Rightarrow> (Inl e, d)
                | Inr validated \<Rightarrow>
                    (let r = inst \<lparr> review_text := (case rd_text validated of
                                                      None \<Rightarrow> review_text inst | Some v \<Rightarrow> v),
                                    review_title := (case rd_title validated of
                                                       None \<Rightarrow> review_title inst
                                                     | Some v \<Rightarrow> title_id v),
                                    review_score := (case rd_score validated of
                                                       None \<Rightarrow> review_score inst | Some v \<Rightarrow> v) \<rparr>
                     in if unique_title_author (reviews d) r
                        then (Inr \<lparr> resp_status = 200, resp_data = r \<rparr>,
                              d \<lparr> reviews := map (\<lambda>x. if review_id x = review_id r then r else x)
                                                  (reviews d) \<rparr>)
                        else (Inl IntegrityError, d)))))"

section \<open>Example data\<close>

text \<open>
  The scenario of the specification: a category, a title in it, and two reviews of the
  title by two users, with the scores \<open>a\<close> and \<open>b\<close>; beside them a category
  without titles, a title without category and reviews, and a genre whose slug has
  a hyphen.
\<close>

definition scenario_db :: "int \<Rightarrow> int \<Rightarrow> db" where
  "scenario_db a b =
     \<lparr> users =
         [\<lparr> user_id = 1, username = ''ann'', email = ''ann@example.org'', role = ''user'',
             first_name = '''', last_name = '''', bio = '''', confirmation_code = ''c0de-ann'' \<rparr>,
          \<lparr> user_id = 2, username = ''bob'', email = ''bob@example.org'', role = ''admin'',
             first_name = '''', last_name = '''', bio = '''', confirmation_code = ''c0de-bob'' \<rparr>],
       categories =
         [\<lparr> category_id = 1, category_name = ''Film'', category_slug = ''film'' \<rparr>,
          \<lparr> category_id = 2, category_name = ''Book'', category_slug = ''book'' \<rparr>],
       genres =
         [\<lparr> genre_id = 1, genre_slug = ''drama'', genre_name = ''Drama'' \<rparr>,
          \<lparr> genre_id = 2, genre_slug = ''sci-fi'', genre_name = ''Sci-Fi'' \<rparr>],
       titles =
         [\<lparr> title_id = 1, title_category = Some 1, title_description = '''',
             title_genre = [1], title_name = ''X'', title_year = 2000 \<rparr>,
          \<lparr> title_id = 2, title_category = None, title_description = [],
             title_genre = [], title_name = ''Y'', title_year = 1999 \<rparr>],
       reviews =
         [\<lparr> review_id = 1, review_title = 1, review_score = a, review_text = ''first'',
             review_author = 1, review_pub_date = 0 \<rparr>,
          \<lparr> review_id = 2, review_title = 1, review_score = b, review_text = ''second'',
             review_author = 2, review_pub_date = 1 \<rparr>],
       outbox = [] \<rparr>"

text \<open>
  An instance of the platform: only strings are rendered and parsed (the examples
  use no other value), the token of a user is \<open>jwt-\<close> followed by the username, and
  the username validator accepts everything.
\<close>

definition example_platform :: platform where
  "example_platform =
     \<lparr> py_str = (\<lambda>j. ''?''),
       py_int = (\<lambda>s. None),
       drf_int = (\<lambda>s. None),
       for_user = (\<lambda>u. ''jwt-'' @ username u),
       username_validator = (\<lambda>s. True) \<rparr>"

text \<open>
  An instance of the user model: a user is an admin when the role says so, every
  field takes a string as it is and nothing else, username and email are required
  and unique, and a new user starts with the role \<open>user\<close>.
\<close>

definition example_model :: user_model where
  "example_model =
     \<lparr> is_admin = (\<lambda>u. role u = ''admin''),
       user_field = (\<lambda>f j. case j of JStr s \<Rightarrow> Some s | _ \<Rightarrow> None),
       user_required = (\<lambda>f. f = ''username'' \<or> f = ''email''),
       email_unique = True,
       defaults = \<lparr> user_id = 0, username = [], email = [], role = ''user'',
                    first_name = [], last_name = [], bio = [],
                    confirmation_code = ''c0de-new'' \<rparr> \<rparr>"

section \<open>Lookups\<close>

lemma get_object_or_404_Inr: "get_object_or_404 rows = Inr x \<Longrightarrow> rows = [x]"
  by (auto simp: get_object_or_404_def queryset_get_def split: list.splits)

lemma get_object_or_404_single: "get_object_or_404 [x] = Inr x"
  by (simp add: get_object_or_404_def queryset_get_def)

lemma filter_unique_key:
  "distinct (map f xs) \<Longrightarrow> x \<in> set xs \<Longrightarrow> filter (\<lambda>y. f y = f x) xs = [x]"
proof (induction xs)
  case Nil
  then show ?case by simp
next
  case (Cons a xs)
  then show ?case
    by (auto simp: filter_empty_conv image_iff)
qed

section \<open>Rating\<close>

lemma to_representation_quotient:
  assumes "0 < n"
  shows "IntegerField_to_representation (of_int s / of_int n) =
           (if s < 0 then - ((- s) div n) else s div n)"
proof -
  have neg: "(of_int s / of_int n < (0::rat)) = (s < 0)"
    using assms by (simp add: divide_less_0_iff)
  have "\<lfloor>- (of_int s / of_int n :: rat)\<rfloor> = (- s) div n"
    by (metis floor_divide_of_int_eq minus_divide_left of_int_minus)
  moreover have "\<lfloor>(of_int s / of_int n :: rat)\<rfloor> = s div n"
    by (rule floor_divide_of_int_eq)
  ultimately show ?thesis
    unfolding IntegerField_to_representation_def using neg by simp
qed

lemma rating_of_scores:
  "map_option IntegerField_to_representation (Avg xs) =
     (if xs = [] then None
      else Some (if sum_list xs < 0 then - ((- sum_list xs) div int (length xs))
                 else sum_list xs div int (length xs)))"
proof (cases "xs = []")
  case True
  then show ?thesis by (simp add: Avg_def)
next
  case False
  then have "0 < int (length xs)" by simp
  from to_representation_quotient [OF this, of "sum_list xs"] False
  show ?thesis by (simp add: Avg_def del: of_int_of_nat_eq)
qed

lemma to_representation_toward_zero:
  "\<bar>of_int (IntegerField_to_representation v)\<bar> \<le> \<bar>v\<bar> \<and>
   \<bar>v - of_int (IntegerField_to_representation v)\<bar> < 1"
  unfolding IntegerField_to_representation_def by (auto; linarith)

lemma retrieve_rating:
  assumes "TitleViewSet_retrieve d pk = Inr r"
  shows "resp_status r = 200 \<and>
         tr_rating (resp_data r) =
           map_option IntegerField_to_representation (Avg (review_scores d pk))"
proof -
  from assms obtain t where
    t: "get_object_or_404 (filter (\<lambda>t. title_id t = pk) (titles d)) = Inr t"
    and r: "r = \<lparr> resp_status = 200, resp_data = TitleOnlyReadSerializer d t \<rparr>"
    by (auto simp: TitleViewSet_retrieve_def split: sum.splits)
  from get_object_or_404_Inr [OF t] have "t \<in> set (filter (\<lambda>t. title_id t = pk) (titles d))"
    by simp
  then have "title_id t = pk" by simp
  with r show ?thesis by (simp add: TitleOnlyReadSerializer_def)
qed

text \<open>
  C2.  On a read of a title the \<open>rating\<close> field is absent (\<open>null\<close>) exactly when the
  title has no review.  Otherwise it is the arithmetic mean of the scores of the
  title's reviews with the fractional part dropped: the integer \<open>k\<close> with
  \<open>\<bar>k\<bar> \<le> \<bar>mean\<bar>\<close> and \<open>\<bar>mean - k\<bar> < 1\<close>, hence the mean itself whenever the mean
  is a whole number.  Two reviews with the scores 4 and 8 give the rating 6.
\<close>

theorem title_rating_truncated_mean:
  assumes "TitleViewSet_retrieve d pk = Inr r"
  shows "resp_status r = 200
       \<and> (tr_rating (resp_data r) = None) = (review_scores d pk = [])
       \<and> (\<forall>m. Avg (review_scores d pk) = Some m \<longrightarrow>
            (\<exists>k. tr_rating (resp_data r) = Some k
                \<and> \<bar>of_int k\<bar> \<le> \<bar>m\<bar> \<and> \<bar>m - of_int k\<bar> < 1
                \<and> (m \<in> \<int> \<longrightarrow> of_int k = m)))
       \<and> (review_scores d pk = [4, 8] \<longrightarrow> tr_rating (resp_data r) = Some 6)"
proof -
  note rr = retrieve_rating [OF assms]
  have a: "(tr_rating (resp_data r) = None) = (review_scores d pk = [])"
    using rr by (simp add: Avg_def)
  have b: "\<exists>k. tr_rating (resp_data r) = Some k
                \<and> \<bar>of_int k\<bar> \<le> \<bar>m\<bar> \<and> \<bar>m - of_int k\<bar> < 1
                \<and> (m \<in> \<int> \<longrightarrow> of_int k = m)"
    if m: "Avg (review_scores d pk) = Some m" for m
  proof -
    let ?k = "IntegerField_to_representation m"
    have k: "tr_rating (resp_data r) = Some ?k" using rr m by simp
    have whole: "of_int ?k = m" if "m \<in> \<int>"
    proof -
      from that obtain z where "m = of_int z" by (auto elim: Ints_cases)
      then show ?thesis by (simp add: IntegerField_to_representation_def)
    qed
    from k whole to_representation_toward_zero [of m] show ?thesis by blast
  qed
  have c: "tr_rating (resp_data r) = Some 6" if "review_scores d pk = [4, 8]"
    using rr that by (simp add: rating_of_scores)
  from rr a b c show ?thesis by blast
qed

theorem title_rating_truncated_mean_witness:
  "TitleViewSet_retrieve (scenario_db 4 8) 1 =
     Inr \<lparr> resp_status = 200,
           resp_data = \<lparr> tr_id = 1, tr_name = ''X'', tr_year = 2000, tr_rating = Some 6,
                         tr_description = '''',
                         tr_genre = [[(''name'', ''Drama''), (''slug'', ''drama'')]],
                         tr_category = Some [(''name'', ''Film''), (''slug'', ''film'')] \<rparr> \<rparr>
   \<and> review_scores (scenario_db 4 8) 1 = [4, 8]
   \<and> Avg (review_scores (scenario_db 4 8) 1) = Some 6"
proof -
  let ?r = "\<lparr> resp_status = 200,
           resp_data = \<lparr> tr_id = 1, tr_name = ''X'', tr_year = 2000, tr_rating = Some (6::int),
                         tr_description = '''',
                         tr_genre = [[(''name'', ''Drama''), (''slug'', ''drama'')]],
                         tr_category = Some [(''name'', ''Film''), (''slug'', ''film'')] \<rparr> \<rparr>"
  have s: "review_scores (scenario_db 4 8) 1 = [4, 8]"
    by (simp add: review_scores_def scenario_db_def)
  have h: "TitleViewSet_retrieve (scenario_db 4 8) 1 = Inr ?r"
    by (simp add: TitleViewSet_retrieve_def TitleOnlyReadSerializer_def rating_of_scores
        review_scores_def scenario_db_def get_object_or_404_def queryset_get_def GenreSerializer_def
        CategorySerializer_def serialize_name_slug_def)
  from title_rating_truncated_mean [OF h] h s show ?thesis
    by (simp add: Avg_def)
qed

text \<open>
  The rating is not the mean in general: with the scores 4 and 7 the mean is 11/2 and
  the field reads 5.
\<close>

theorem title_rating_not_mean:
  "TitleViewSet_retrieve (scenario_db 4 7) 1 =
     Inr \<lparr> resp_status = 200,
           resp_data = \<lparr> tr_id = 1, tr_name = ''X'', tr_year = 2000, tr_rating = Some 5,
                         tr_description = '''',
                         tr_genre = [[(''name'', ''Drama''), (''slug'', ''drama'')]],
                         tr_category = Some [(''name'', ''Film''), (''slug'', ''film'')] \<rparr> \<rparr>
   \<and> Avg (review_scores (scenario_db 4 7) 1) = Some (11 / 2)
   \<and> (of_int 5 :: rat) \<noteq> 11 / 2"
proof -
  have s: "review_scores (scenario_db 4 7) 1 = [4, 7]"
    by (simp add: review_scores_def scenario_db_def)
  have h: "TitleViewSet_retrieve (scenario_db 4 7) 1 = Inr \<lparr> resp_status = 200,
           resp_data = \<lparr> tr_id = 1, tr_name = ''X'', tr_year = 2000, tr_rating = Some 5,
                         tr_description = '''',
                         tr_genre = [[(''name'', ''Drama''), (''slug'', ''drama'')]],
                         tr_category = Some [(''name'', ''Film''), (''slug'', ''film'')] \<rparr> \<rparr>"
    by (simp add: TitleViewSet_retrieve_def TitleOnlyReadSerializer_def rating_of_scores
        review_scores_def scenario_db_def get_object_or_404_def queryset_get_def GenreSerializer_def
        CategorySerializer_def serialize_name_slug_def)
  show ?thesis using h s by (simp add: Avg_def)
qed

section \<open>Deleting categories and genres\<close>

lemma delete_category_found:
  assumes "filter (\<lambda>x. category_slug x = slug) (categories d) = [c]"
  shows "delete_category d slug =
           (if list_ex (\<lambda>t. title_category t = Some (category_id c)) (titles d)
            then (Inl ProtectedError, d)
            else (Inr \<lparr> resp_status = 204, resp_data = CategorySerializer c \<rparr>,
                  d \<lparr> categories := filter (\<lambda>x. category_id x \<noteq> category_id c) (categories d) \<rparr>))"
  using assms by (simp add: delete_category_def get_object_or_404_def queryset_get_def)

lemma delete_genre_found:
  assumes "filter (\<lambda>x. genre_slug x = slug) (genres d) = [g]"
  shows "delete_genre d slug =
           (Inr \<lparr> resp_status = 204,
                  resp_data = serialize_name_slug (genre_name g) (genre_slug g) \<rparr>,
            d \<lparr> genres := filter (\<lambda>x. genre_id x \<noteq> genre_id g) (genres d),
                titles := map (\<lambda>t. t \<lparr> title_genre := removeAll (genre_id g) (title_genre t) \<rparr>)
                              (titles d) \<rparr>)"
  using assms by (simp add: delete_genre_def get_object_or_404_def queryset_get_def)

lemma filter_other_keys:
  "distinct (map f xs) \<Longrightarrow> x \<in> set xs \<Longrightarrow>
     set (filter (\<lambda>y. f y \<noteq> f x) xs) = set xs - {x}"
  by (auto simp: distinct_map inj_on_def)

text \<open>
  C7.  Deleting a category that some title references raises \<open>ProtectedError\<close>: the
  request fails (status 500) and the database is left as it was, the category and
  its titles included.  Deleting a category that no title references succeeds with
  status 204: exactly that category is gone and the titles are untouched.
\<close>

theorem delete_category_protected:
  assumes "c \<in> set (categories d)"
    and "distinct (map category_slug (categories d))"
    and "distinct (map category_id (categories d))"
  shows "(list_ex (\<lambda>t. title_category t = Some (category_id c)) (titles d) \<longrightarrow>
            delete_category d (category_slug c) = (Inl ProtectedError, d)
            \<and> exception_status ProtectedError = 500)
       \<and> (\<not> list_ex (\<lambda>t. title_category t = Some (category_id c)) (titles d) \<longrightarrow>
            (\<exists>d'. delete_category d (category_slug c) =
                    (Inr \<lparr> resp_status = 204, resp_data = CategorySerializer c \<rparr>, d')
                \<and> set (categories d') = set (categories d) - {c}
                \<and> titles d' = titles d))"
proof -
  have "filter (\<lambda>x. category_slug x = category_slug c) (categories d) = [c]"
    using assms(1,2) by (simp add: filter_unique_key)
  note found = delete_category_found [OF this]
  have "set (filter (\<lambda>x. category_id x \<noteq> category_id c) (categories d)) = set (categories d) - {c}"
    using assms(1,3) by (rule filter_other_keys [rotated])
  with found show ?thesis by simp
qed

theorem delete_category_protected_witness:
  "delete_category (scenario_db 4 8) ''film'' = (Inl ProtectedError, scenario_db 4 8)
   \<and> delete_category (scenario_db 4 8) ''book'' =
       (Inr \<lparr> resp_status = 204, resp_data = [(''name'', ''Book''), (''slug'', ''book'')] \<rparr>,
        (scenario_db 4 8) \<lparr> categories :=
           [\<lparr> category_id = 1, category_name = ''Film'', category_slug = ''film'' \<rparr>] \<rparr>)"
proof -
  let ?film = "\<lparr> category_id = 1, category_name = ''Film'', category_slug = ''film'' \<rparr>"
  let ?book = "\<lparr> category_id = 2, category_name = ''Book'', category_slug = ''book'' \<rparr>"
  have m: "?film \<in> set (categories (scenario_db 4 8))" "?book \<in> set (categories (scenario_db 4 8))"
    by (simp_all add: scenario_db_def)
  have ds: "distinct (map category_slug (categories (scenario_db 4 8)))"
    by (simp add: scenario_db_def)
  have di: "distinct (map category_id (categories (scenario_db 4 8)))"
    by (simp add: scenario_db_def)
  have used: "list_ex (\<lambda>t. title_category t = Some (category_id ?film)) (titles (scenario_db 4 8))"
    by (simp add: scenario_db_def)
  have unused: "\<not> list_ex (\<lambda>t. title_category t = Some (category_id ?book)) (titles (scenario_db 4 8))"
    by (simp add: scenario_db_def)
  have a: "delete_category (scenario_db 4 8) ''film'' = (Inl ProtectedError, scenario_db 4 8)"
    using delete_category_protected [OF m(1) ds di] used by simp
  have b: "delete_category (scenario_db 4 8) ''book'' =
       (Inr \<lparr> resp_status = 204, resp_data = [(''name'', ''Book''), (''slug'', ''book'')] \<rparr>,
        (scenario_db 4 8) \<lparr> categories := [?film] \<rparr>)"
    by (simp add: delete_category_def scenario_db_def get_object_or_404_def queryset_get_def
        CategorySerializer_def serialize_name_slug_def)
  from a b show ?thesis by simp
qed

text \<open>
  C10.  For every existing genre whose slug matches the path \<^verbatim>\<open>\w+\<close> of the
  action, and for every existing category with such a slug that no title
  references, the delete-by-slug action answers with status 204 and the body
  \<open>{name, slug}\<close> of the deleted object; the genre handler builds the body with
  the category serializer, which yields the same two fields.  A slug with a
  character outside \<^verbatim>\<open>\w\<close>, such as a hyphen, never reaches these handlers.
\<close>

theorem delete_by_slug_response:
  "(c \<in> set (categories d) \<and> distinct (map category_slug (categories d))
      \<and> slug_url_path (category_slug c)
      \<and> \<not> list_ex (\<lambda>t. title_category t = Some (category_id c)) (titles d) \<longrightarrow>
      map_option (\<lambda>r. map_sum exception_status (\<lambda>x. (resp_status x, resp_data x)) (fst r))
                 (CategoryViewSet_delete_category d (category_slug c)) =
        Some (Inr (204, [(''name'', category_name c), (''slug'', category_slug c)])))
   \<and> (g \<in> set (genres d) \<and> distinct (map genre_slug (genres d))
      \<and> slug_url_path (genre_slug g) \<longrightarrow>
      map_option (\<lambda>r. map_sum exception_status (\<lambda>x. (resp_status x, resp_data x)) (fst r))
                 (GenreViewSet_delete_genre d (genre_slug g)) =
        Some (Inr (204, [(''name'', genre_name g), (''slug'', genre_slug g)]))
      \<and> GenreSerializer g = [(''name'', genre_name g), (''slug'', genre_slug g)])
   \<and> (\<not> slug_url_path s \<longrightarrow>
      CategoryViewSet_delete_category d s = None \<and> GenreViewSet_delete_genre d s = None)"
proof -
  have cat: "fst (delete_category d (category_slug c)) =
               Inr \<lparr> resp_status = 204, resp_data = CategorySerializer c \<rparr>"
    if "c \<in> set (categories d)" "distinct (map category_slug (categories d))"
       "\<not> list_ex (\<lambda>t. title_category t = Some (category_id c)) (titles d)"
  proof -
    have "filter (\<lambda>x. category_slug x = category_slug c) (categories d) = [c]"
      using that(1,2) by (simp add: filter_unique_key)
    from delete_category_found [OF this] that(3) show ?thesis by simp
  qed
  have gen: "fst (delete_genre d (genre_slug g)) =
               Inr \<lparr> resp_status = 204,
                     resp_data = serialize_name_slug (genre_name g) (genre_slug g) \<rparr>"
    if "g \<in> set (genres d)" "distinct (map genre_slug (genres d))"
  proof -
    have "filter (\<lambda>x. genre_slug x = genre_slug g) (genres d) = [g]"
      using that by (simp add: filter_unique_key)
    from delete_genre_found [OF this] show ?thesis by simp
  qed
  have routed_cat:
    "map_option (\<lambda>r. map_sum exception_status (\<lambda>x. (resp_status x, resp_data x)) (fst r))
                 (CategoryViewSet_delete_category d (category_slug c)) =
        Some (Inr (204, [(''name'', category_name c), (''slug'', category_slug c)]))"
    if "c \<in> set (categories d)" "distinct (map category_slug (categories d))"
       "slug_url_path (category_slug c)"
       "\<not> list_ex (\<lambda>t. title_category t = Some (category_id c)) (titles d)"
    using cat [OF that(1,2,4)] that(3)
    by (simp add: CategoryViewSet_delete_category_def CategorySerializer_def
        serialize_name_slug_def)
  have routed_gen:
    "map_option (\<lambda>r. map_sum exception_status (\<lambda>x. (resp_status x, resp_data x)) (fst r))
                 (GenreViewSet_delete_genre d (genre_slug g)) =
        Some (Inr (204, [(''name'', genre_name g), (''slug'', genre_slug g)]))"
    if "g \<in> set (genres d)" "distinct (map genre_slug (genres d))"
       "slug_url_path (genre_slug g)"
    using gen [OF that(1,2)] that(3)
    by (simp add: GenreViewSet_delete_genre_def serialize_name_slug_def)
  have ser: "GenreSerializer g = [(''name'', genre_name g), (''slug'', genre_slug g)]"
    by (simp add: GenreSerializer_def serialize_name_slug_def)
  have unrouted: "CategoryViewSet_delete_category d s = None \<and> GenreViewSet_delete_genre d s = None"
    if "\<not> slug_url_path s"
    using that by (simp add: CategoryViewSet_delete_category_def GenreViewSet_delete_genre_def)
  from routed_cat routed_gen ser unrouted show ?thesis by blast
qed

theorem delete_by_slug_response_witness:
  "CategoryViewSet_delete_category (scenario_db 4 8) ''book'' =
     Some (Inr \<lparr> resp_status = 204, resp_data = [(''name'', ''Book''), (''slug'', ''book'')] \<rparr>,
           (scenario_db 4 8) \<lparr> categories :=
              [\<lparr> category_id = 1, category_name = ''Film'', category_slug = ''film'' \<rparr>] \<rparr>)
   \<and> map_option fst (GenreViewSet_delete_genre (scenario_db 4 8) ''drama'') =
     Some (Inr \<lparr> resp_status = 204, resp_data = [(''name'', ''Drama''), (''slug'', ''drama'')] \<rparr>)
   \<and> map title_genre (titles (scenario_db 4 8)) = [[1], []]
   \<and> map_option (\<lambda>r. map title_genre (titles (snd r)))
        (GenreViewSet_delete_genre (scenario_db 4 8) ''drama'') = Some [[], []]
   \<and> GenreViewSet_delete_genre (scenario_db 4 8) ''sci-fi'' = None"
proof -
  let ?book = "\<lparr> category_id = 2, category_name = ''Book'', category_slug = ''book'' \<rparr>"
  let ?drama = "\<lparr> genre_id = 1, genre_slug = ''drama'', genre_name = ''Drama'' \<rparr>"
  have hc: "?book \<in> set (categories (scenario_db 4 8))
      \<and> distinct (map category_slug (categories (scenario_db 4 8)))
      \<and> slug_url_path (category_slug ?book)
      \<and> \<not> list_ex (\<lambda>t. title_category t = Some (category_id ?book)) (titles (scenario_db 4 8))"
    by (simp add: scenario_db_def slug_url_path_def word_char_def)
  have hg: "?drama \<in> set (genres (scenario_db 4 8))
      \<and> distinct (map genre_slug (genres (scenario_db 4 8)))
      \<and> slug_url_path (genre_slug ?drama)"
    by (simp add: scenario_db_def slug_url_path_def word_char_def)
  have hs: "\<not> slug_url_path ''sci-fi''"
    by (simp add: slug_url_path_def word_char_def)
  note t = delete_by_slug_response [of ?book "scenario_db 4 8" ?drama "''sci-fi''"]
  from t hs have e: "GenreViewSet_delete_genre (scenario_db 4 8) ''sci-fi'' = None"
    by blast
  have a: "CategoryViewSet_delete_category (scenario_db 4 8) ''book'' =
     Some (Inr \<lparr> resp_status = 204, resp_data = [(''name'', ''Book''), (''slug'', ''book'')] \<rparr>,
           (scenario_db 4 8) \<lparr> categories :=
              [\<lparr> category_id = 1, category_name = ''Film'', category_slug = ''film'' \<rparr>] \<rparr>)"
    by (simp add: CategoryViewSet_delete_category_def slug_url_path_def word_char_def
        delete_category_def scenario_db_def get_object_or_404_def queryset_get_def
        CategorySerializer_def serialize_name_slug_def)
  have b: "GenreViewSet_delete_genre (scenario_db 4 8) ''drama'' =
     Some (Inr \<lparr> resp_status = 204, resp_data = [(''name'', ''Drama''), (''slug'', ''drama'')] \<rparr>,
      (scenario_db 4 8) \<lparr> genres :=
          [\<lparr> genre_id = 2, genre_slug = ''sci-fi'', genre_name = ''Sci-Fi'' \<rparr>],
        titles := [\<lparr> title_id = 1, title_category = Some 1, title_description = [],
           title_genre = [], title_name = ''X'', title_year = 2000 \<rparr>,
          \<lparr> title_id = 2, title_category = None, title_description = [],
             title_genre = [], title_name = ''Y'', title_year = 1999 \<rparr>] \<rparr>)"
    by (simp add: GenreViewSet_delete_genre_def slug_url_path_def word_char_def
        delete_genre_def scenario_db_def get_object_or_404_def queryset_get_def
        serialize_name_slug_def)
  have b1: "map_option fst (GenreViewSet_delete_genre (scenario_db 4 8) ''drama'') =
     Some (Inr \<lparr> resp_status = 204, resp_data = [(''name'', ''Drama''), (''slug'', ''drama'')] \<rparr>)"
    by (simp add: b)
  have b2: "map_option (\<lambda>r. map title_genre (titles (snd r)))
        (GenreViewSet_delete_genre (scenario_db 4 8) ''drama'') = Some [[], []]"
    by (simp add: b)
  have c: "map title_genre (titles (scenario_db 4 8)) = [[1], []]"
    by (simp add: scenario_db_def)
  from a b1 c b2 e show ?thesis by (intro conjI)
qed

text \<open>
  The status 204 does not hold for every existing category or genre: the category
  \<open>film\<close> of the scenario is referenced by a title, and its deletion raises
  instead of responding; the genre \<open>sci-fi\<close> exists, and a delete request for its
  slug is not served by the handler at all.
\<close>

theorem delete_by_slug_category_in_use:
  "CategoryViewSet_delete_category (scenario_db 4 8) ''film'' =
     Some (Inl ProtectedError, scenario_db 4 8)
   \<and> list_ex (\<lambda>c. category_slug c = ''film'') (categories (scenario_db 4 8))
   \<and> GenreViewSet_delete_genre (scenario_db 4 8) ''sci-fi'' = None
   \<and> list_ex (\<lambda>g. genre_slug g = ''sci-fi'') (genres (scenario_db 4 8))"
proof -
  have a: "CategoryViewSet_delete_category (scenario_db 4 8) ''film'' =
     Some (Inl ProtectedError, scenario_db 4 8)"
    by (simp add: CategoryViewSet_delete_category_def slug_url_path_def word_char_def
        delete_category_def scenario_db_def get_object_or_404_def queryset_get_def)
  have b: "list_ex (\<lambda>c. category_slug c = ''film'') (categories (scenario_db 4 8))"
    by (simp add: scenario_db_def)
  have c: "GenreViewSet_delete_genre (scenario_db 4 8) ''sci-fi'' = None"
    by (simp add: GenreViewSet_delete_genre_def slug_url_path_def word_char_def)
  have d: "list_ex (\<lambda>g. genre_slug g = ''sci-fi'') (genres (scenario_db 4 8))"
    by (simp add: scenario_db_def)
  from a b c d show ?thesis by (intro conjI)
qed

section \<open>Token exchange\<close>

text \<open>A body of two clean strings passes the serializer as it is.\<close>

lemma TokenSerializer_accepts:
  assumes "data ''username'' = Some (JStr n)" and "data ''confirmation_code'' = Some (JStr c)"
    and "strip n = n" and "n \<noteq> []" and "length n \<le> 150" and "CHR 0x00 \<notin> set n"
    and "username_validator pf n"
    and "strip c = c" and "c \<noteq> []" and "CHR 0x00 \<notin> set c"
  shows "TokenSerializer pf data = Inr (n, c)"
  using assms by (simp add: TokenSerializer_def CharField_def)

lemma Token_post_found:
  assumes "TokenSerializer pf data = Inr (n, code)"
    and "filter (\<lambda>x. username x = n) (users d) = [u]"
  shows "Token_post pf d data =
           (if confirmation_code u = code
            then Inr \<lparr> resp_status = 200,
                       resp_data = JObject [(''token'', JStr (for_user pf u))] \<rparr>
            else Inr \<lparr> resp_status = 400,
                       resp_data = JObject [(''confirmation_code'',
                                             JArray [JStr ''code is not valid''])] \<rparr>)"
  using assms
  by (simp add: Token_post_def get_object_or_404_def queryset_get_def check_confirmation_code_def)

text \<open>
  C6.  For every existing user, a token request that passes the serializer with the
  user's username and the user's confirmation code is answered with status 200 and
  the body \<open>{"token": t}\<close>, \<open>t\<close> the access token made for that user; with the
  username and any other code it is answered with status 400 and a body that has
  no token.
\<close>

theorem token_exchange:
  assumes "u \<in> set (users d)"
    and "distinct (map username (users d))"
    and "TokenSerializer pf data = Inr (username u, code)"
  shows "(code = confirmation_code u \<longrightarrow>
            Token_post pf d data =
              Inr \<lparr> resp_status = 200,
                    resp_data = JObject [(''token'', JStr (for_user pf u))] \<rparr>
            \<and> issued_token (Token_post pf d data) = Some (JStr (for_user pf u)))
       \<and> (code \<noteq> confirmation_code u \<longrightarrow>
            response_status (Token_post pf d data) = 400
            \<and> issued_token (Token_post pf d data) = None)"
proof -
  have "filter (\<lambda>x. username x = username u) (users d) = [u]"
    using assms(1,2) by (simp add: filter_unique_key)
  from Token_post_found [OF assms(3) this] show ?thesis
    by (auto simp: response_status_def issued_token_def)
qed

theorem token_exchange_witness:
  "Token_post example_platform (scenario_db 4 8)
     [''username'' \<mapsto> JStr ''ann'', ''confirmation_code'' \<mapsto> JStr ''c0de-ann''] =
     Inr \<lparr> resp_status = 200, resp_data = JObject [(''token'', JStr ''jwt-ann'')] \<rparr>
   \<and> Token_post example_platform (scenario_db 4 8)
     [''username'' \<mapsto> JStr ''ann'', ''confirmation_code'' \<mapsto> JStr ''wrong''] =
     Inr \<lparr> resp_status = 400,
           resp_data = JObject [(''confirmation_code'', JArray [JStr ''code is not valid''])] \<rparr>"
proof -
  let ?ann = "\<lparr> user_id = 1, username = ''ann'', email = ''ann@example.org'', role = ''user'',
             first_name = '''', last_name = '''', bio = '''', confirmation_code = ''c0de-ann'' \<rparr>"
  let ?ok = "[''username'' \<mapsto> JStr ''ann'', ''confirmation_code'' \<mapsto> JStr ''c0de-ann'']"
  let ?bad = "[''username'' \<mapsto> JStr ''ann'', ''confirmation_code'' \<mapsto> JStr ''wrong'']"
  have m: "?ann \<in> set (users (scenario_db 4 8))" by (simp add: scenario_db_def)
  have dn: "distinct (map username (users (scenario_db 4 8)))" by (simp add: scenario_db_def)
  have v1: "TokenSerializer example_platform ?ok = Inr (username ?ann, ''c0de-ann'')"
    by (simp add: TokenSerializer_def CharField_def example_platform_def strip_def isspace_def)
  have v2: "TokenSerializer example_platform ?bad = Inr (username ?ann, ''wrong'')"
    by (simp add: TokenSerializer_def CharField_def example_platform_def strip_def isspace_def)
  have b: "Token_post example_platform (scenario_db 4 8) ?bad =
     Inr \<lparr> resp_status = 400,
           resp_data = JObject [(''confirmation_code'', JArray [JStr ''code is not valid''])] \<rparr>"
    using Token_post_found [OF v2, of "scenario_db 4 8" ?ann]
    by (simp add: scenario_db_def)
  from token_exchange [OF m dn v1] token_exchange [OF m dn v2] b show ?thesis
    by (simp add: example_platform_def)
qed



section \<open>Sign-up\<close>

lemma filter_unique_key':
  "distinct (map f xs) \<Longrightarrow> x \<in> set xs \<Longrightarrow> filter (\<lambda>y. f x = f y) xs = [x]"
  using filter_unique_key [of f xs x] by (simp add: eq_commute)

lemma unique_excluding_instance:
  assumes "distinct (map column rows)" and "u \<in> set rows"
  shows "UniqueValidator rows (Some u) column (column u)"
proof -
  have "x = u" if "x \<in> set rows" "column x = column u" for x
    using assms that by (meson distinct_map inj_onD)
  then show ?thesis by (auto simp: UniqueValidator_def list_ex_iff)
qed

lemma unique_taken:
  "u \<in> set rows \<Longrightarrow> \<not> UniqueValidator rows None column (column u)"
  by (auto simp: UniqueValidator_def list_ex_iff)

lemma save_user_same:
  assumes "distinct (map user_id (users d))" and "u \<in> set (users d)"
  shows "save_user d u = d"
proof -
  have "x = u" if "x \<in> set (users d)" "user_id x = user_id u" for x
    using assms that by (meson distinct_map inj_onD)
  then have "map (\<lambda>x. if user_id x = user_id u then u else x) (users d) = users d"
    by (intro map_idI) auto
  then show ?thesis by (simp add: save_user_def)
qed

lemma signup_repeat:
  assumes u: "u \<in> set (users d)"
    and dn: "distinct (map username (users d))"
    and di: "distinct (map user_id (users d))"
    and de: "email_unique mdl \<longrightarrow> distinct (map email (users d))"
    and n: "data ''username'' = Some (JStr (username u))"
    and fn: "user_field mdl ''username'' (JStr (username u)) = Some (username u)"
    and me: "username u \<noteq> ''me''"
    and e: "data ''email'' = Some (JStr (email u))"
    and fe: "user_field mdl ''email'' (JStr (email u)) = Some (email u)"
  shows "SignUpViewSet_create pf mdl d data =
           (Inr \<lparr> resp_status = 200,
                  resp_data = JObject [(''email'', JStr (email u)),
                                       (''username'', JStr (username u))] \<rparr>,
            d \<lparr> outbox := outbox d @
                   [\<lparr> mail_to = Some (JStr (email u)), mail_username = username u,
                      mail_code = confirmation_code u \<rparr>] \<rparr>)"
proof -
  have by_name: "filter (\<lambda>x. lookup_matches pf (data ''username'') (username x)) (users d) = [u]"
    using u dn n by (simp add: lookup_matches_def filter_unique_key')
  have un: "UniqueValidator (users d) (Some u) username (username u)"
    using dn u by (rule unique_excluding_instance)
  have ue: "email_unique mdl \<Longrightarrow> UniqueValidator (users d) (Some u) email (email u)"
    using de u by (simp add: unique_excluding_instance)
  have rn: "user_field_run mdl (users d) (Some u) False ''username'' (data ''username'')
              = Valid (username u)"
    using n fn un me by (simp add: user_field_run_def unique_column_def validate_username_def)
  have re: "user_field_run mdl (users d) (Some u) False ''email'' (data ''email'')
              = Valid (email u)"
    using e fe ue by (simp add: user_field_run_def unique_column_def)
  have valid: "user_serializer_is_valid mdl (users d) (Some u) False SignUpSerializer_fields data
                 = Inr [(''email'', email u), (''username'', username u)]"
    using rn re
    by (simp add: user_serializer_is_valid_def SignUpSerializer_fields_def field_errors_def
        valid_items_def)
  have same: "fold (\<lambda>kv u. setattr_user u kv) [(''email'', email u), (''username'', username u)] u = u"
    by (simp add: setattr_user_def)
  show ?thesis
    unfolding SignUpViewSet_create_def Let_def by_name
    using e valid same save_user_same [OF di u] by_name
    by (simp add: lookup_matches_def queryset_get_def user_data_def SignUpSerializer_fields_def)
qed

lemma signup_other_email:
  assumes u: "u \<in> set (users d)"
    and dn: "distinct (map username (users d))"
    and n: "data ''username'' = Some (JStr (username u))"
    and fn: "user_field mdl ''username'' (JStr (username u)) = Some (username u)"
    and e: "\<not> lookup_matches pf (data ''email'') (email u)"
  shows "\<exists>errs. SignUpViewSet_create pf mdl d data =
                  (Inr \<lparr> resp_status = 400, resp_data = errors_json errs \<rparr>, d)
              \<and> (''username'', [''unique'']) \<in> set errs"
proof -
  have by_name: "filter (\<lambda>x. lookup_matches pf (data ''username'') (username x)) (users d) = [u]"
    using u dn n by (simp add: lookup_matches_def filter_unique_key')
  have rn: "user_field_run mdl (users d) None False ''username'' (data ''username'')
              = Failed [''unique'']"
    using n fn unique_taken [OF u, of username]
    by (simp add: user_field_run_def unique_column_def)
  let ?errs = "field_errors ''email''
                 (user_field_run mdl (users d) None False ''email'' (data ''email''))
               @ [(''username'', [''unique''])]"
  have invalid: "user_serializer_is_valid mdl (users d) None False SignUpSerializer_fields data
                 = Inl ?errs"
    using rn
    by (simp add: user_serializer_is_valid_def SignUpSerializer_fields_def field_errors_def)
  have "SignUpViewSet_create pf mdl d data =
          (Inr \<lparr> resp_status = 400, resp_data = errors_json ?errs \<rparr>, d)"
    unfolding SignUpViewSet_create_def Let_def by_name
    using e invalid by simp
  then show ?thesis by auto
qed

text \<open>
  C5.  Sign-up is idempotent by (username, email).  A sign-up request that carries
  the username and the email of an existing account (both accepted by the user
  model's fields, the username not \<open>me\<close>) is answered with 200, leaves the users as
  they are, and mails that account's confirmation code to the email.  A sign-up
  request that carries the username of an existing account and another email is
  answered with 400, changes nothing, and reports the username as not unique.
\<close>

theorem signup_idempotent:
  assumes "u \<in> set (users d)"
    and "distinct (map username (users d))"
    and "distinct (map user_id (users d))"
    and "email_unique mdl \<longrightarrow> distinct (map email (users d))"
    and "data ''username'' = Some (JStr (username u))"
    and "user_field mdl ''username'' (JStr (username u)) = Some (username u)"
  shows "(username u \<noteq> ''me'' \<and> data ''email'' = Some (JStr (email u))
            \<and> user_field mdl ''email'' (JStr (email u)) = Some (email u) \<longrightarrow>
            SignUpViewSet_create pf mdl d data =
              (Inr \<lparr> resp_status = 200,
                     resp_data = JObject [(''email'', JStr (email u)),
                                          (''username'', JStr (username u))] \<rparr>,
               d \<lparr> outbox := outbox d @
                      [\<lparr> mail_to = Some (JStr (email u)), mail_username = username u,
                         mail_code = confirmation_code u \<rparr>] \<rparr>)
            \<and> users (snd (SignUpViewSet_create pf mdl d data)) = users d)
       \<and> (\<not> lookup_matches pf (data ''email'') (email u) \<longrightarrow>
            (\<exists>errs. SignUpViewSet_create pf mdl d data =
                      (Inr \<lparr> resp_status = 400, resp_data = errors_json errs \<rparr>, d)
                  \<and> (''username'', [''unique'']) \<in> set errs))"
proof (intro conjI impI)
  assume h: "username u \<noteq> ''me'' \<and> data ''email'' = Some (JStr (email u))
            \<and> user_field mdl ''email'' (JStr (email u)) = Some (email u)"
  from h have a: "username u \<noteq> ''me''" and b: "data ''email'' = Some (JStr (email u))"
    and c: "user_field mdl ''email'' (JStr (email u)) = Some (email u)" by simp_all
  note r = signup_repeat [OF assms(1-6) a b c, of pf]
  show "SignUpViewSet_create pf mdl d data =
              (Inr \<lparr> resp_status = 200,
                     resp_data = JObject [(''email'', JStr (email u)),
                                          (''username'', JStr (username u))] \<rparr>,
               d \<lparr> outbox := outbox d @
                      [\<lparr> mail_to = Some (JStr (email u)), mail_username = username u,
                         mail_code = confirmation_code u \<rparr>] \<rparr>)"
    by (rule r)
  show "users (snd (SignUpViewSet_create pf mdl d data)) = users d"
    by (simp add: r)
next
  assume "\<not> lookup_matches pf (data ''email'') (email u)"
  from signup_other_email [OF assms(1,2,5,6) this]
  show "\<exists>errs. SignUpViewSet_create pf mdl d data =
                      (Inr \<lparr> resp_status = 400, resp_data = errors_json errs \<rparr>, d)
                  \<and> (''username'', [''unique'']) \<in> set errs" .
qed

theorem signup_idempotent_witness:
  "SignUpViewSet_create example_platform example_model (scenario_db 4 8)
     [''username'' \<mapsto> JStr ''ann'', ''email'' \<mapsto> JStr ''ann@example.org''] =
     (Inr \<lparr> resp_status = 200,
            resp_data = JObject [(''email'', JStr ''ann@example.org''),
                                 (''username'', JStr ''ann'')] \<rparr>,
      (scenario_db 4 8) \<lparr> outbox :=
         [\<lparr> mail_to = Some (JStr ''ann@example.org''), mail_username = ''ann'',
            mail_code = ''c0de-ann'' \<rparr>] \<rparr>)
   \<and> SignUpViewSet_create example_platform example_model (scenario_db 4 8)
     [''username'' \<mapsto> JStr ''ann'', ''email'' \<mapsto> JStr ''other@example.org''] =
     (Inr \<lparr> resp_status = 400,
            resp_data = JObject [(''username'', JArray [JStr ''unique''])] \<rparr>,
      scenario_db 4 8)"
proof -
  let ?ann = "\<lparr> user_id = 1, username = ''ann'', email = ''ann@example.org'', role = ''user'',
             first_name = [], last_name = [], bio = [], confirmation_code = ''c0de-ann'' \<rparr>"
  let ?same = "[''username'' \<mapsto> JStr ''ann'', ''email'' \<mapsto> JStr ''ann@example.org'']"
  let ?other = "[''username'' \<mapsto> JStr ''ann'', ''email'' \<mapsto> JStr ''other@example.org'']"
  have m: "?ann \<in> set (users (scenario_db 4 8))" by (simp add: scenario_db_def)
  have dn: "distinct (map username (users (scenario_db 4 8)))" by (simp add: scenario_db_def)
  have di: "distinct (map user_id (users (scenario_db 4 8)))" by (simp add: scenario_db_def)
  have de: "email_unique example_model \<longrightarrow> distinct (map email (users (scenario_db 4 8)))"
    by (simp add: scenario_db_def)
  have fn: "user_field example_model ''username'' (JStr (username ?ann)) = Some (username ?ann)"
    by (simp add: example_model_def)
  have a: "SignUpViewSet_create example_platform example_model (scenario_db 4 8) ?same =
     (Inr \<lparr> resp_status = 200,
            resp_data = JObject [(''email'', JStr ''ann@example.org''),
                                 (''username'', JStr ''ann'')] \<rparr>,
      (scenario_db 4 8) \<lparr> outbox :=
         [\<lparr> mail_to = Some (JStr ''ann@example.org''), mail_username = ''ann'',
            mail_code = ''c0de-ann'' \<rparr>] \<rparr>)"
    using signup_idempotent [OF m dn di de _ fn, of ?same example_platform]
    by (simp add: example_model_def scenario_db_def)
  have b: "SignUpViewSet_create example_platform example_model (scenario_db 4 8) ?other =
     (Inr \<lparr> resp_status = 400,
            resp_data = JObject [(''username'', JArray [JStr ''unique''])] \<rparr>,
      scenario_db 4 8)"
    by (simp add: SignUpViewSet_create_def lookup_matches_def scenario_db_def queryset_get_def
        user_serializer_is_valid_def SignUpSerializer_fields_def user_field_run_def
        example_model_def unique_column_def UniqueValidator_def field_errors_def
        errors_json_def)
  from a b show ?thesis by simp
qed

section \<open>The caller's own profile\<close>

lemma fold_setattr_role:
  assumes "list_all (\<lambda>p. fst p = ''role'' \<longrightarrow> snd p = r) kvs" and "role u = r"
  shows "role (fold (\<lambda>kv u. setattr_user u kv) kvs u) = r"
  using assms
proof (induction kvs arbitrary: u)
  case Nil
  then show ?case by simp
next
  case (Cons kv kvs)
  from Cons.prems have "role (setattr_user u kv) = r"
    by (auto simp: setattr_user_def Let_def)
  with Cons show ?case by simp
qed

lemma fold_setattr_id: "user_id (fold (\<lambda>kv u. setattr_user u kv) kvs u) = user_id u"
proof (induction kvs arbitrary: u)
  case Nil
  then show ?case by simp
next
  case (Cons kv kvs)
  have "user_id (setattr_user u kv) = user_id u"
    by (simp add: setattr_user_def Let_def)
  with Cons show ?case by simp
qed

lemma dict_set_role: "list_all (\<lambda>p. fst p = k \<longrightarrow> snd p = v) (dict_set k v kvs)"
  by (auto simp: dict_set_def list_all_iff list_ex_iff)

lemma save_user_roles:
  assumes "distinct (map user_id (users d))" and "u \<in> set (users d)"
    and "user_id inst = user_id u" and "role inst = role u"
  shows "map role (users (save_user d inst)) = map role (users d)"
proof -
  have "x = u" if "x \<in> set (users d)" "user_id x = user_id u" for x
    using assms(1,2) that by (meson distinct_map inj_onD)
  then have "role (if user_id x = user_id inst then inst else x) = role x"
    if "x \<in> set (users d)" for x
    using that assms(3,4) by auto
  then show ?thesis by (simp add: save_user_def comp_def)
qed

lemma me_patch_cases:
  "(\<exists>errs. UserViewSet_me mdl d ''PATCH'' caller data = (Inl (ValidationError errs), d))
   \<or> (\<exists>inst. UserViewSet_me mdl d ''PATCH'' caller data =
               (Inr \<lparr> resp_status = 200, resp_data = user_data UserSerializer_fields inst \<rparr>,
                save_user d inst)
            \<and> user_id inst = user_id caller \<and> role inst = role caller)"
proof -
  let ?w = "if is_admin mdl caller
            then filter (\<lambda>f. f \<notin> set UserMeSerializer_read_only_fields) UserSerializer_fields
            else UserSerializer_fields"
  show ?thesis
  proof (cases "user_serializer_is_valid mdl (users d) (Some caller) True ?w data")
    case (Inl errs)
    then show ?thesis by (simp add: UserViewSet_me_def)
  next
    case (Inr validated)
    let ?inst = "fold (\<lambda>kv u. setattr_user u kv) (dict_set ''role'' (role caller) validated) caller"
    have "role ?inst = role caller"
      by (rule fold_setattr_role [OF dict_set_role refl])
    moreover have "user_id ?inst = user_id caller" by (rule fold_setattr_id)
    moreover have "UserViewSet_me mdl d ''PATCH'' caller data =
               (Inr \<lparr> resp_status = 200, resp_data = user_data UserSerializer_fields ?inst \<rparr>,
                save_user d ?inst)"
      using Inr by (simp add: UserViewSet_me_def Let_def)
    ultimately show ?thesis by blast
  qed
qed

text \<open>
  C1.  A \<open>PATCH\<close> of the caller's own profile leaves the caller's role as it was,
  whatever the body holds and whether or not the caller is an admin: the roles of
  all users after the call are the roles before it, and a successful call reports
  the caller's unchanged role.
\<close>

theorem me_patch_keeps_role:
  assumes "caller \<in> set (users d)"
    and "distinct (map user_id (users d))"
  shows "map role (users (snd (UserViewSet_me mdl d ''PATCH'' caller data))) = map role (users d)
       \<and> list_all (\<lambda>x. user_id x = user_id caller \<longrightarrow> role x = role caller)
                  (users (snd (UserViewSet_me mdl d ''PATCH'' caller data)))
       \<and> (\<forall>resp. fst (UserViewSet_me mdl d ''PATCH'' caller data) = Inr resp \<longrightarrow>
            resp_status resp = 200
            \<and> (\<exists>kvs. resp_data resp = JObject kvs
                    \<and> map_of kvs ''role'' = Some (JStr (role caller))))"
proof -
  have same: "x = caller" if "x \<in> set (users d)" "user_id x = user_id caller" for x
    using assms that by (meson distinct_map inj_onD)
  from me_patch_cases [of mdl d caller data] show ?thesis
  proof (elim disjE exE conjE)
    fix errs
    assume "UserViewSet_me mdl d ''PATCH'' caller data = (Inl (ValidationError errs), d)"
    then show ?thesis using same by (auto simp: list_all_iff)
  next
    fix inst
    assume r: "UserViewSet_me mdl d ''PATCH'' caller data =
               (Inr \<lparr> resp_status = 200, resp_data = user_data UserSerializer_fields inst \<rparr>,
                save_user d inst)"
      and i: "user_id inst = user_id caller" and ro: "role inst = role caller"
    have a: "map role (users (save_user d inst)) = map role (users d)"
      using save_user_roles [OF assms(2,1) i ro] .
    have b: "list_all (\<lambda>x. user_id x = user_id caller \<longrightarrow> role x = role caller)
               (users (save_user d inst))"
      using same i ro by (auto simp: save_user_def list_all_iff)
    have c: "\<exists>kvs. user_data UserSerializer_fields inst = JObject kvs
                    \<and> map_of kvs ''role'' = Some (JStr (role caller))"
      using ro by (simp add: user_data_def UserSerializer_fields_def)
    from r a b c show ?thesis by simp
  qed
qed

theorem me_patch_keeps_role_witness:
  "UserViewSet_me example_model (scenario_db 4 8) ''PATCH''
     \<lparr> user_id = 1, username = ''ann'', email = ''ann@example.org'', role = ''user'',
       first_name = [], last_name = [], bio = [], confirmation_code = ''c0de-ann'' \<rparr>
     [''role'' \<mapsto> JStr ''admin'', ''bio'' \<mapsto> JStr ''hello''] =
     (Inr \<lparr> resp_status = 200,
            resp_data = JObject [(''username'', JStr ''ann''), (''email'', JStr ''ann@example.org''),
                                 (''role'', JStr ''user''), (''first_name'', JStr []),
                                 (''last_name'', JStr []), (''bio'', JStr ''hello'')] \<rparr>,
      (scenario_db 4 8) \<lparr> users :=
         [\<lparr> user_id = 1, username = ''ann'', email = ''ann@example.org'', role = ''user'',
             first_name = [], last_name = [], bio = ''hello'', confirmation_code = ''c0de-ann'' \<rparr>,
          \<lparr> user_id = 2, username = ''bob'', email = ''bob@example.org'', role = ''admin'',
             first_name = [], last_name = [], bio = [], confirmation_code = ''c0de-bob'' \<rparr>] \<rparr>)
   \<and> map role (users (scenario_db 4 8)) = [''user'', ''admin'']"
proof -
  let ?ann = "\<lparr> user_id = 1, username = ''ann'', email = ''ann@example.org'', role = ''user'',
       first_name = [], last_name = [], bio = [], confirmation_code = ''c0de-ann'' \<rparr>"
  let ?data = "[''role'' \<mapsto> JStr ''admin'', ''bio'' \<mapsto> JStr ''hello'']"
  have m: "?ann \<in> set (users (scenario_db 4 8))" by (simp add: scenario_db_def)
  have di: "distinct (map user_id (users (scenario_db 4 8)))" by (simp add: scenario_db_def)
  have e: "UserViewSet_me example_model (scenario_db 4 8) ''PATCH'' ?ann ?data =
     (Inr \<lparr> resp_status = 200,
            resp_data = JObject [(''username'', JStr ''ann''), (''email'', JStr ''ann@example.org''),
                                 (''role'', JStr ''user''), (''first_name'', JStr []),
                                 (''last_name'', JStr []), (''bio'', JStr ''hello'')] \<rparr>,
      (scenario_db 4 8) \<lparr> users :=
         [\<lparr> user_id = 1, username = ''ann'', email = ''ann@example.org'', role = ''user'',
             first_name = [], last_name = [], bio = ''hello'', confirmation_code = ''c0de-ann'' \<rparr>,
          \<lparr> user_id = 2, username = ''bob'', email = ''bob@example.org'', role = ''admin'',
             first_name = [], last_name = [], bio = [], confirmation_code = ''c0de-bob'' \<rparr>] \<rparr>)"
    by (simp add: UserViewSet_me_def example_model_def scenario_db_def
        user_serializer_is_valid_def UserSerializer_fields_def user_field_run_def
        unique_column_def field_errors_def valid_items_def dict_set_def setattr_user_def
        save_user_def user_data_def)
  from me_patch_keeps_role [OF m di, of example_model ?data] e show ?thesis
    by (simp add: scenario_db_def)
qed

text \<open>
  The role does not change for an admin either: the admin of the scenario sends
  the role \<open>user\<close>, the call succeeds, and the admin's role is still \<open>admin\<close>.
\<close>

theorem me_patch_admin_role_unchanged:
  "is_admin example_model
     \<lparr> user_id = 2, username = ''bob'', email = ''bob@example.org'', role = ''admin'',
       first_name = [], last_name = [], bio = [], confirmation_code = ''c0de-bob'' \<rparr>
   \<and> UserViewSet_me example_model (scenario_db 4 8) ''PATCH''
     \<lparr> user_id = 2, username = ''bob'', email = ''bob@example.org'', role = ''admin'',
       first_name = [], last_name = [], bio = [], confirmation_code = ''c0de-bob'' \<rparr>
     [''role'' \<mapsto> JStr ''user''] =
     (Inr \<lparr> resp_status = 200,
            resp_data = JObject [(''username'', JStr ''bob''), (''email'', JStr ''bob@example.org''),
                                 (''role'', JStr ''admin''), (''first_name'', JStr []),
                                 (''last_name'', JStr []), (''bio'', JStr [])] \<rparr>,
      scenario_db 4 8)"
  by (simp add: UserViewSet_me_def example_model_def scenario_db_def
      user_serializer_is_valid_def UserSerializer_fields_def UserMeSerializer_read_only_fields_def
      user_field_run_def unique_column_def field_errors_def valid_items_def dict_set_def
      setattr_user_def save_user_def user_data_def)

section \<open>Reviews\<close>

lemma validate_duplicate:
  assumes "list_ex (\<lambda>r. review_author r = user_id author \<and> review_title r = tid) rows"
  shows "ReviewSerializer_validate rows ''POST'' author tid vd =
           Inl (ValidationError [(''non_field_errors'', [''invalid''])])"
  using assms by (simp add: ReviewSerializer_validate_def)

lemma validate_not_post:
  "m \<noteq> ''POST'' \<Longrightarrow> ReviewSerializer_validate rows m author tid vd = Inr vd"
  by (simp add: ReviewSerializer_validate_def)

lemma is_valid_duplicate:
  assumes "list_ex (\<lambda>r. review_author r = user_id author \<and> review_title r = tid) (reviews d)"
  shows "\<exists>errs. ReviewSerializer_is_valid pf d ''POST'' author tid partial data =
                  Inl (ValidationError errs)"
  using validate_duplicate [OF assms]
  by (simp add: ReviewSerializer_is_valid_def Let_def)

lemma is_valid_not_post:
  assumes "m \<noteq> ''POST''"
  shows "ReviewSerializer_is_valid pf (d \<lparr> reviews := rs \<rparr>) m author tid partial data =
         ReviewSerializer_is_valid pf d m author tid partial data"
  using assms by (simp add: ReviewSerializer_is_valid_def Let_def validate_not_post)

lemma is_valid_not_post_errors:
  assumes "m \<noteq> ''POST''"
    and "ReviewSerializer_is_valid pf d m author tid partial data = Inl (ValidationError errs)"
  shows "\<not> list_ex (\<lambda>p. fst p = ''non_field_errors'') errs"
proof -
  let ?t = "CharField pf partial None (\<lambda>v. []) (data ''text'')"
  let ?ti = "title_field pf (titles d) (data ''title'')"
  let ?s = "case IntegerField pf partial (data ''score'') of
                 Valid n \<Rightarrow> validate_score n
               | r \<Rightarrow> r"
  from assms have "errs = field_errors ''text'' ?t @ field_errors ''title'' ?ti
                          @ field_errors ''score'' ?s"
    by (simp add: ReviewSerializer_is_valid_def Let_def validate_not_post split: if_splits)
  then show ?thesis
    by (auto simp: field_errors_def list_ex_iff split: field_result.splits)
qed

text \<open>
  C3.  When the caller already has a review of the title, a further create request
  of the caller for that title fails with a validation error (status 400),
  whatever its body, and stores nothing.  The check belongs to \<open>POST\<close> alone: for
  every other method \<^verbatim>\<open>validate\<close> returns the data as it is, the outcome of the
  validation does not depend on the stored reviews, and an update never fails with
  the non-field error of the duplicate check.
\<close>

theorem duplicate_review_rejected:
  assumes "list_ex (\<lambda>r. review_author r = user_id caller \<and> review_title r = tid) (reviews d)"
  shows "(\<exists>errs. ReviewViewSet_create pf d caller tid now data = (Inl (ValidationError errs), d))
       \<and> response_status (fst (ReviewViewSet_create pf d caller tid now data)) = 400
       \<and> (\<forall>m vd. m \<noteq> ''POST'' \<longrightarrow>
             ReviewSerializer_validate (reviews d) m caller tid vd = Inr vd)
       \<and> (\<forall>m partial rs. m \<noteq> ''POST'' \<longrightarrow>
             ReviewSerializer_is_valid pf (d \<lparr> reviews := rs \<rparr>) m caller tid partial data =
             ReviewSerializer_is_valid pf d m caller tid partial data)
       \<and> (\<forall>m rid errs d'. m \<noteq> ''POST'' \<and>
             ReviewViewSet_update pf d m caller tid rid data = (Inl (ValidationError errs), d') \<longrightarrow>
             \<not> list_ex (\<lambda>p. fst p = ''non_field_errors'') errs)"
proof -
  from is_valid_duplicate [OF assms] obtain errs where
    "ReviewSerializer_is_valid pf d ''POST'' caller tid False data = Inl (ValidationError errs)"
    by blast
  then have a: "ReviewViewSet_create pf d caller tid now data = (Inl (ValidationError errs), d)"
    by (simp add: ReviewViewSet_create_def)
  then have b: "response_status (fst (ReviewViewSet_create pf d caller tid now data)) = 400"
    by (simp add: response_status_def)
  have c: "\<not> list_ex (\<lambda>p. fst p = ''non_field_errors'') errs'"
    if "m \<noteq> ''POST''"
       "ReviewViewSet_update pf d m caller tid rid data = (Inl (ValidationError errs'), d')"
    for m rid errs' d'
  proof -
    from that(2) have
      "ReviewSerializer_is_valid pf d m caller tid (m = ''PATCH'') data = Inl (ValidationError errs')"
      by (auto simp: ReviewViewSet_update_def Let_def get_object_or_404_def queryset_get_def
          split: sum.splits list.splits if_splits error.splits)
    from is_valid_not_post_errors [OF that(1) this] show ?thesis .
  qed
  from a b c show ?thesis
    by (auto simp: validate_not_post is_valid_not_post)
qed

theorem duplicate_review_rejected_witness:
  "ReviewViewSet_create example_platform (scenario_db 4 8)
     \<lparr> user_id = 1, username = ''ann'', email = ''ann@example.org'', role = ''user'',
       first_name = [], last_name = [], bio = [], confirmation_code = ''c0de-ann'' \<rparr>
     1 7 [''text'' \<mapsto> JStr ''again'', ''score'' \<mapsto> JInt 9] =
     (Inl (ValidationError [(''non_field_errors'', [''invalid''])]), scenario_db 4 8)
   \<and> ReviewViewSet_update example_platform (scenario_db 4 8) ''PATCH''
     \<lparr> user_id = 1, username = ''ann'', email = ''ann@example.org'', role = ''user'',
       first_name = [], last_name = [], bio = [], confirmation_code = ''c0de-ann'' \<rparr>
     1 1 [''score'' \<mapsto> JInt 9] =
     (Inr \<lparr> resp_status = 200,
            resp_data = \<lparr> review_id = 1, review_title = 1, review_score = 9,
                          review_text = ''first'', review_author = 1, review_pub_date = 0 \<rparr> \<rparr>,
      (scenario_db 4 8) \<lparr> reviews :=
         [\<lparr> review_id = 1, review_title = 1, review_score = 9, review_text = ''first'',
             review_author = 1, review_pub_date = 0 \<rparr>,
          \<lparr> review_id = 2, review_title = 1, review_score = 8, review_text = ''second'',
             review_author = 2, review_pub_date = 1 \<rparr>] \<rparr>)"
proof -
  let ?ann = "\<lparr> user_id = 1, username = ''ann'', email = ''ann@example.org'', role = ''user'',
       first_name = [], last_name = [], bio = [], confirmation_code = ''c0de-ann'' \<rparr>"
  let ?data = "[''text'' \<mapsto> JStr ''again'', ''score'' \<mapsto> JInt 9]"
  have h: "list_ex (\<lambda>r. review_author r = user_id ?ann \<and> review_title r = 1)
             (reviews (scenario_db 4 8))"
    by (simp add: scenario_db_def)
  have a: "ReviewViewSet_create example_platform (scenario_db 4 8) ?ann 1 7 ?data =
     (Inl (ValidationError [(''non_field_errors'', [''invalid''])]), scenario_db 4 8)"
    by (simp add: ReviewViewSet_create_def ReviewSerializer_is_valid_def CharField_def
        IntegerField_def title_field_def validate_score_def field_errors_def strip_def
        isspace_def value_of_def ReviewSerializer_validate_def scenario_db_def)
  have b: "ReviewViewSet_update example_platform (scenario_db 4 8) ''PATCH'' ?ann 1 1
             [''score'' \<mapsto> JInt 9] =
     (Inr \<lparr> resp_status = 200,
            resp_data = \<lparr> review_id = 1, review_title = 1, review_score = 9,
                          review_text = ''first'', review_author = 1, review_pub_date = 0 \<rparr> \<rparr>,
      (scenario_db 4 8) \<lparr> reviews :=
         [\<lparr> review_id = 1, review_title = 1, review_score = 9, review_text = ''first'',
             review_author = 1, review_pub_date = 0 \<rparr>,
          \<lparr> review_id = 2, review_title = 1, review_score = 8, review_text = ''second'',
             review_author = 2, review_pub_date = 1 \<rparr>] \<rparr>)"
    by (simp add: ReviewViewSet_update_def ReviewSerializer_is_valid_def CharField_def
        IntegerField_def title_field_def validate_score_def field_errors_def value_of_def
        ReviewSerializer_validate_def get_object_or_404_def queryset_get_def
        unique_title_author_def scenario_db_def Let_def)
  from duplicate_review_rejected [OF h, of example_platform 7 ?data] a b
  show ?thesis by simp
qed

lemma create_reads_three_members:
  assumes "\<forall>k. k \<noteq> ''author'' \<longrightarrow> data k = data' k"
  shows "ReviewViewSet_create pf d caller tid now data =
         ReviewViewSet_create pf d caller tid now data'"
proof -
  from assms have "data ''text'' = data' ''text''" "data ''title'' = data' ''title''"
    "data ''score'' = data' ''score''" by simp_all
  then show ?thesis
    by (simp add: ReviewViewSet_create_def ReviewSerializer_is_valid_def)
qed

lemma create_stores_caller:
  assumes "ReviewViewSet_create pf d caller tid now data = (Inr resp, d')"
  shows "resp_status resp = 201 \<and> review_author (resp_data resp) = user_id caller
       \<and> review_title (resp_data resp) = tid
       \<and> reviews d' = reviews d @ [resp_data resp]"
proof -
  from assms obtain t words score where
    t: "get_object_or_404 (filter (\<lambda>t. title_id t = tid) (titles d)) = Inr t"
    and r: "resp = \<lparr> resp_status = 201,
                     resp_data = \<lparr> review_id = next_id (map review_id (reviews d)),
                               review_title = title_id t,
                               review_score = score,
                               review_text = words,
                               review_author = user_id caller,
                               review_pub_date = now \<rparr> \<rparr>"
    and d': "d' = d \<lparr> reviews := reviews d @ [resp_data resp] \<rparr>"
    by (auto simp: ReviewViewSet_create_def Let_def
        split: sum.splits option.splits if_splits)
  from get_object_or_404_Inr [OF t] have "t \<in> set (filter (\<lambda>t. title_id t = tid) (titles d))"
    by simp
  then have "title_id t = tid" by simp
  with r d' show ?thesis by simp
qed

text \<open>
  C8.  A review that a create request stores has the caller as its author and the
  title of the URL as its title, whatever the body says: the body's member
  \<open>author\<close> is never read, so two create requests that differ only there have the
  same outcome.
\<close>

theorem review_author_is_caller:
  "(\<forall>resp d'. ReviewViewSet_create pf d caller tid now data = (Inr resp, d') \<longrightarrow>
      resp_status resp = 201
      \<and> review_author (resp_data resp) = user_id caller
      \<and> reviews d' = reviews d @ [resp_data resp])
   \<and> ((\<forall>k. k \<noteq> ''author'' \<longrightarrow> data k = data' k) \<longrightarrow>
      ReviewViewSet_create pf d caller tid now data =
      ReviewViewSet_create pf d caller tid now data')"
  using create_stores_caller [of pf d caller tid now data]
    create_reads_three_members [of data data' pf d caller tid now]
  by blast

theorem review_author_is_caller_witness:
  "ReviewViewSet_create example_platform (scenario_db 4 8)
     \<lparr> user_id = 1, username = ''ann'', email = ''ann@example.org'', role = ''user'',
       first_name = [], last_name = [], bio = [], confirmation_code = ''c0de-ann'' \<rparr>
     2 7 [''text'' \<mapsto> JStr ''fine'', ''score'' \<mapsto> JInt 9, ''author'' \<mapsto> JStr ''bob''] =
     (Inr \<lparr> resp_status = 201,
            resp_data = \<lparr> review_id = 3, review_title = 2, review_score = 9,
                          review_text = ''fine'', review_author = 1, review_pub_date = 7 \<rparr> \<rparr>,
      (scenario_db 4 8) \<lparr> reviews := reviews (scenario_db 4 8) @
         [\<lparr> review_id = 3, review_title = 2, review_score = 9,
             review_text = ''fine'', review_author = 1, review_pub_date = 7 \<rparr>] \<rparr>)
   \<and> ReviewViewSet_create example_platform (scenario_db 4 8)
     \<lparr> user_id = 1, username = ''ann'', email = ''ann@example.org'', role = ''user'',
       first_name = [], last_name = [], bio = [], confirmation_code = ''c0de-ann'' \<rparr>
     2 7 [''text'' \<mapsto> JStr ''fine'', ''score'' \<mapsto> JInt 9, ''author'' \<mapsto> JInt 2] =
     ReviewViewSet_create example_platform (scenario_db 4 8)
     \<lparr> user_id = 1, username = ''ann'', email = ''ann@example.org'', role = ''user'',
       first_name = [], last_name = [], bio = [], confirmation_code = ''c0de-ann'' \<rparr>
     2 7 [''text'' \<mapsto> JStr ''fine'', ''score'' \<mapsto> JInt 9, ''author'' \<mapsto> JStr ''bob'']"
proof -
  let ?ann = "\<lparr> user_id = 1, username = ''ann'', email = ''ann@example.org'', role = ''user'',
       first_name = [], last_name = [], bio = [], confirmation_code = ''c0de-ann'' \<rparr>"
  let ?bob = "[''text'' \<mapsto> JStr ''fine'', ''score'' \<mapsto> JInt 9, ''author'' \<mapsto> JStr ''bob'']"
  let ?two = "[''text'' \<mapsto> JStr ''fine'', ''score'' \<mapsto> JInt 9, ''author'' \<mapsto> JInt 2]"
  have a: "ReviewViewSet_create example_platform (scenario_db 4 8) ?ann 2 7 ?bob =
     (Inr \<lparr> resp_status = 201,
            resp_data = \<lparr> review_id = 3, review_title = 2, review_score = 9,
                          review_text = ''fine'', review_author = 1, review_pub_date = 7 \<rparr> \<rparr>,
      (scenario_db 4 8) \<lparr> reviews := reviews (scenario_db 4 8) @
         [\<lparr> review_id = 3, review_title = 2, review_score = 9,
             review_text = ''fine'', review_author = 1, review_pub_date = 7 \<rparr>] \<rparr>)"
    by (simp add: ReviewViewSet_create_def ReviewSerializer_is_valid_def CharField_def
        IntegerField_def title_field_def validate_score_def field_errors_def value_of_def
        ReviewSerializer_validate_def get_object_or_404_def queryset_get_def strip_def
        isspace_def unique_title_author_def next_id_def scenario_db_def Let_def)
  have b: "\<forall>k. k \<noteq> ''author'' \<longrightarrow> ?two k = ?bob k" by simp
  note t = review_author_is_caller [of example_platform "scenario_db 4 8" ?ann 2 7 ?two ?bob]
  from t have "(\<forall>k. k \<noteq> ''author'' \<longrightarrow> ?two k = ?bob k) \<longrightarrow>
      ReviewViewSet_create example_platform (scenario_db 4 8) ?ann 2 7 ?two =
      ReviewViewSet_create example_platform (scenario_db 4 8) ?ann 2 7 ?bob"
    by (rule conjunct2)
  from this b have c: "ReviewViewSet_create example_platform (scenario_db 4 8) ?ann 2 7 ?two =
      ReviewViewSet_create example_platform (scenario_db 4 8) ?ann 2 7 ?bob"
    by (rule mp)
  show ?thesis by (rule conjI [OF a c])
qed

section \<open>Title.year validation\<close>

text \<open>
  C4.  The guard of \<open>validate_year\<close> asks for a value that is at least the current
  year and negative at once.  The current year is at least 1, so no integer
  satisfies it: for every input the validation raises nothing and returns the input
  unchanged.
\<close>

theorem validate_year_accepts_all:
  assumes "1 \<le> now_year"
  shows "\<not> (data \<ge> now_year \<and> data < 0) \<and> validate_year now_year data = Inr data"
  using assms by (simp add: validate_year_def)

theorem validate_year_accepts_all_witness:
  "\<not> ((3000::int) \<ge> 2026 \<and> (3000::int) < 0) \<and> validate_year 2026 3000 = Inr 3000
   \<and> validate_year 2026 (- 5) = Inr (- 5)"
  using validate_year_accepts_all [of 2026 3000] validate_year_accepts_all [of 2026 "- 5"]
  by simp

end
